theory Spec2Isabelle
  imports Main "HOL-Library.Sublist"
begin

text \<open>
  The program \<^verbatim>\<open>project-1/requests.go\<close>: an HTTP server with two handlers on a
  \<^verbatim>\<open>ServeMux\<close>, started in a goroutine of its own, and a driver that makes three calls
  to it. The handlers, the three functions of the driver and \<^verbatim>\<open>main\<close> are embedded as
  they are written. What they call in the Go library is embedded from the library as far
  as the program's output depends on it: the formatting verbs, \<^verbatim>\<open>http.Error\<close>, the
  routing of \<^verbatim>\<open>ServeMux\<close>, the response writer. The network is a parameter.
\<close>

section \<open>Text as Go prints it\<close>

text \<open>
  A Go \<^verbatim>\<open>string\<close> and a \<^verbatim>\<open>[]byte\<close> are sequences of bytes: both are \<^typ>\<open>string\<close> here
  (a \<^typ>\<open>char\<close> is one byte). The program prints with the verbs \<^verbatim>\<open>%s\<close> (the bytes as they
  are) and \<^verbatim>\<open>%#v\<close> (Go syntax: a string goes through \<^verbatim>\<open>strconv.Quote\<close>). The quoting
  is library code of the Go distribution, embedded here from \<^verbatim>\<open>strconv/quote.go\<close> and
  \<^verbatim>\<open>unicode/utf8\<close>. Its print tables for runes above \<^verbatim>\<open>0xFF\<close> are data of the Go
  release: every function that quotes takes them as the parameter \<open>tbl\<close>.
\<close>

type_synonym rune = nat

definition newline :: char where
  "newline = CHR 0x0A"

definition dquote :: char where
  "dquote = CHR 0x22"

definition backslash :: char where
  "backslash = CHR 0x5C"

definition lowerhex :: "nat \<Rightarrow> char" where
  "lowerhex d = ''0123456789abcdef'' ! (d mod 16)"

definition RuneError :: rune where
  "RuneError = 0xFFFD"

text \<open>\<^verbatim>\<open>utf8.first\<close>: the size of the encoding a leading byte announces (0: ASCII or invalid).\<close>

definition firstSize :: "nat \<Rightarrow> nat" where
  "firstSize b =
     (if 0xC2 \<le> b \<and> b \<le> 0xDF then 2
      else if 0xE0 \<le> b \<and> b \<le> 0xEF then 3
      else if 0xF0 \<le> b \<and> b \<le> 0xF4 then 4
      else 0)"

text \<open>\<^verbatim>\<open>utf8.acceptRanges\<close>: the range of the second byte, by leading byte.\<close>

definition acceptRange :: "nat \<Rightarrow> nat \<times> nat" where
  "acceptRange b =
     (if b = 0xE0 then (0xA0, 0xBF)
      else if b = 0xED then (0x80, 0x9F)
      else if b = 0xF0 then (0x90, 0xBF)
      else if b = 0xF4 then (0x80, 0x8F)
      else (0x80, 0xBF))"

definition inRange :: "nat \<times> nat \<Rightarrow> nat \<Rightarrow> bool" where
  "inRange lh b = (fst lh \<le> b \<and> b \<le> snd lh)"

text \<open>\<^verbatim>\<open>utf8.DecodeRuneInString\<close>: the first rune of the string and its width in bytes.\<close>

definition DecodeRuneInString :: "string \<Rightarrow> rune \<times> nat" where
  "DecodeRuneInString s =
     (case map of_char s of
        [] \<Rightarrow> (RuneError, 0)
      | s0 # t \<Rightarrow>
          let sz = firstSize s0 in
          if sz = 0 then (if s0 < 0x80 then (s0, 1) else (RuneError, 1))
          else if length s < sz then (RuneError, 1)
          else
            let s1 = t ! 0 in
            if \<not> inRange (acceptRange s0) s1 then (RuneError, 1)
            else if sz \<le> 2 then ((s0 mod 32) * 64 + s1 mod 64, 2)
            else
              let s2 = t ! 1 in
              if \<not> inRange (0x80, 0xBF) s2 then (RuneError, 1)
              else if sz \<le> 3 then ((s0 mod 16) * 4096 + (s1 mod 64) * 64 + s2 mod 64, 3)
              else
                let s3 = t ! 2 in
                if \<not> inRange (0x80, 0xBF) s3 then (RuneError, 1)
                else ((s0 mod 8) * 262144 + (s1 mod 64) * 4096 + (s2 mod 64) * 64 + s3 mod 64, 4))"

text \<open>\<^verbatim>\<open>utf8.AppendRune\<close>: the UTF-8 encoding of a rune.\<close>

definition ValidRune :: "rune \<Rightarrow> bool" where
  "ValidRune r = (r < 0xD800 \<or> (0xDFFF < r \<and> r \<le> 0x10FFFF))"

definition AppendRune :: "rune \<Rightarrow> string" where
  "AppendRune r =
     (if r \<le> 0x7F then [char_of r]
      else if r \<le> 0x7FF then [char_of (0xC0 + r div 64), char_of (0x80 + r mod 64)]
      else if \<not> ValidRune r then [char_of (0xEF::nat), char_of (0xBF::nat), char_of (0xBD::nat)]
      else if r \<le> 0xFFFF then
        [char_of (0xE0 + r div 4096), char_of (0x80 + (r div 64) mod 64), char_of (0x80 + r mod 64)]
      else
        [char_of (0xF0 + r div 262144), char_of (0x80 + (r div 4096) mod 64),
         char_of (0x80 + (r div 64) mod 64), char_of (0x80 + r mod 64)])"

text \<open>\<^verbatim>\<open>strconv.IsPrint\<close>: decided in the code for Latin-1, by the tables above it.\<close>

definition IsPrint :: "(rune \<Rightarrow> bool) \<Rightarrow> rune \<Rightarrow> bool" where
  "IsPrint tbl r =
     (if r \<le> 0xFF then
        (if 0x20 \<le> r \<and> r \<le> 0x7E then True
         else if 0xA1 \<le> r then r \<noteq> 0xAD
         else False)
      else tbl r)"

definition hexDigits :: "nat \<Rightarrow> nat \<Rightarrow> string" where
  "hexDigits n r = map (\<lambda>i. lowerhex (r div 16 ^ i)) (rev [0..<n])"

text \<open>
  \<^verbatim>\<open>appendEscapedRune\<close> with the quote \<^verbatim>\<open>"\<close>, \<^verbatim>\<open>ASCIIonly\<close> and \<^verbatim>\<open>graphicOnly\<close> false, as
  \<^verbatim>\<open>strconv.Quote\<close> calls it.
  (Older releases write the byte \<^verbatim>\<open>0x7F\<close> as \<^verbatim>\<open>\u007f\<close>; nothing below depends on it.)
\<close>

definition appendEscapedRune :: "(rune \<Rightarrow> bool) \<Rightarrow> rune \<Rightarrow> string" where
  "appendEscapedRune tbl r =
     (if r = of_char dquote \<or> r = of_char backslash then [backslash, char_of r]
      else if IsPrint tbl r then AppendRune r
      else if r = 7 then [backslash, CHR ''a'']
      else if r = 8 then [backslash, CHR ''b'']
      else if r = 12 then [backslash, CHR ''f'']
      else if r = 10 then [backslash, CHR ''n'']
      else if r = 13 then [backslash, CHR ''r'']
      else if r = 9 then [backslash, CHR ''t'']
      else if r = 11 then [backslash, CHR ''v'']
      else if r < 0x20 \<or> r = 0x7F then [backslash, CHR ''x''] @ hexDigits 2 r
      else if \<not> ValidRune r then [backslash, CHR ''u''] @ hexDigits 4 RuneError
      else if r < 0x10000 then [backslash, CHR ''u''] @ hexDigits 4 r
      else [backslash, CHR ''U''] @ hexDigits 8 r)"

text \<open>
  The loop of \<^verbatim>\<open>appendQuotedWith\<close>: one rune a round; a byte that starts no valid encoding
  is written as \<^verbatim>\<open>\x\<close> and two hex digits.
\<close>

definition firstRune :: "string \<Rightarrow> rune \<times> nat" where
  "firstRune s =
     (if (of_char (hd s) :: nat) \<ge> 0x80 then DecodeRuneInString s else (of_char (hd s), 1))"

function quoteLoop :: "(rune \<Rightarrow> bool) \<Rightarrow> string \<Rightarrow> string" where
  "quoteLoop tbl [] = []"
| "quoteLoop tbl (c # cs) =
     (if snd (firstRune (c # cs)) = 1 \<and> fst (firstRune (c # cs)) = RuneError then
        [backslash, CHR ''x''] @ hexDigits 2 (of_char c) @ quoteLoop tbl cs
      else
        appendEscapedRune tbl (fst (firstRune (c # cs)))
          @ quoteLoop tbl (drop (snd (firstRune (c # cs)) - 1) cs))"
  by pat_completeness auto
termination
  by (relation "measure (\<lambda>(tbl, s). length s)") auto

definition Quote :: "(rune \<Rightarrow> bool) \<Rightarrow> string \<Rightarrow> string" where
  "Quote tbl s = [dquote] @ quoteLoop tbl s @ [dquote]"

section \<open>Requests and responses\<close>

text \<open>
  \<^verbatim>\<open>url.URL\<close>, with the fields of the Go releases the program was written for (later
  releases add \<^verbatim>\<open>OmitHost\<close> and \<^verbatim>\<open>RawFragment\<close>). \<open>User\<close> is the pointer
  \<^verbatim>\<open>*url.Userinfo\<close> as a number, 0 for \<^verbatim>\<open>nil\<close>.
\<close>

record url =
  Scheme :: string
  Opaque :: string
  User :: nat
  Host :: string
  Path :: string
  RawPath :: string
  ForceQuery :: bool
  RawQuery :: string
  Fragment :: string

text \<open>
  A body stream: the bytes it delivers, then end of file (\<open>None\<close>) or the text of the
  error that ends it. \<^verbatim>\<open>ioutil.ReadAll\<close> returns both.
\<close>

datatype reader = Reader string "string option"

fun ReadAll :: "reader \<Rightarrow> string \<times> string option" where
  "ReadAll (Reader bytes err) = (bytes, err)"

text \<open>
  \<^verbatim>\<open>http.Request\<close> as the server hands it to a handler: what the handlers read
  (\<open>URL\<close>, \<open>Body\<close>), what \<^verbatim>\<open>ServeMux\<close> reads (\<open>Method\<close>, \<open>RequestURI\<close>, the path), and what
  nothing in the program reads (\<open>Proto\<close>, \<open>Header\<close>, \<open>ReqHost\<close> for the field \<^verbatim>\<open>Host\<close>,
  \<open>RemoteAddr\<close>).
\<close>

record request =
  Method :: string
  URL :: url
  Proto :: string
  ProtoMajor :: nat
  ProtoMinor :: nat
  Header :: "(string \<times> string list) list"
  Body :: reader
  ReqHost :: string
  RemoteAddr :: string
  RequestURI :: string

text \<open>
  \<^verbatim>\<open>http.ResponseWriter\<close>: the status line is fixed by the first \<^verbatim>\<open>WriteHeader\<close>, which the
  first \<^verbatim>\<open>Write\<close> calls with 200 when nothing has called it yet; later calls of
  \<^verbatim>\<open>WriteHeader\<close> change nothing.
  A response here is what a handler has written through the
  \<^verbatim>\<open>ResponseWriter\<close>: the status, the headers it set and the bytes of the body. How the
  server puts it on the connection (framing, no body in the answer to a \<^verbatim>\<open>HEAD\<close>) is below
  the model.
\<close>

record response =
  wroteHeader :: bool
  status :: nat
  respHeader :: "string \<rightharpoonup> string list"
  respBody :: string

definition newResponse :: response where
  "newResponse = \<lparr>wroteHeader = False, status = 200, respHeader = Map.empty, respBody = []\<rparr>"

definition WriteHeader :: "response \<Rightarrow> nat \<Rightarrow> response" where
  "WriteHeader w code = (if wroteHeader w then w else w\<lparr>wroteHeader := True, status := code\<rparr>)"

definition Write :: "response \<Rightarrow> string \<Rightarrow> response" where
  "Write w bytes =
     (let w' = (if wroteHeader w then w else WriteHeader w 200)
      in w'\<lparr>respBody := respBody w' @ bytes\<rparr>)"

text \<open>
  \<^verbatim>\<open>http.Error\<close>: sets the headers of a plain text reply, writes the status, and prints the
  message with \<^verbatim>\<open>fmt.Fprintln\<close>, which ends the line.
\<close>

definition Error :: "response \<Rightarrow> string \<Rightarrow> nat \<Rightarrow> response" where
  "Error w err code =
     (let h = (respHeader w)(''Content-Length'' := None);
          h = h(''Content-Type'' \<mapsto> [''text/plain; charset=utf-8'']);
          h = h(''X-Content-Type-Options'' \<mapsto> [''nosniff''])
      in Write (WriteHeader (w\<lparr>respHeader := h\<rparr>) code) (err @ [newline]))"

subsection \<open>The debug representation of the URL\<close>

text \<open>
  \<^verbatim>\<open>%#v\<close> on the \<^verbatim>\<open>*url.URL\<close> of the request: an ampersand, the type, and the fields in
  braces, each as \<^verbatim>\<open>Name:value\<close>; a string in Go quotes, a boolean as \<^verbatim>\<open>true\<close> or
  \<^verbatim>\<open>false\<close>, the inner pointer as its type and \<^verbatim>\<open>nil\<close> or its address in hexadecimal.
\<close>

definition fmtBool :: "bool \<Rightarrow> string" where
  "fmtBool b = (if b then ''true'' else ''false'')"

definition fmt0x64 :: "nat \<Rightarrow> string" where
  "fmt0x64 u = ''0x'' @ dropWhile (\<lambda>c. c = CHR ''0'') (hexDigits 16 u)"

definition fmtPointer :: "string \<Rightarrow> nat \<Rightarrow> string" where
  "fmtPointer ty u = ''('' @ ty @ '')('' @ (if u = 0 then ''nil'' else fmt0x64 u) @ '')''"

definition goSyntaxURL :: "(rune \<Rightarrow> bool) \<Rightarrow> url \<Rightarrow> string" where
  "goSyntaxURL tbl u =
     ''&url.URL{''
       @ ''Scheme:'' @ Quote tbl (Scheme u)
       @ '', Opaque:'' @ Quote tbl (Opaque u)
       @ '', User:'' @ fmtPointer ''*url.Userinfo'' (User u)
       @ '', Host:'' @ Quote tbl (Host u)
       @ '', Path:'' @ Quote tbl (Path u)
       @ '', RawPath:'' @ Quote tbl (RawPath u)
       @ '', ForceQuery:'' @ fmtBool (ForceQuery u)
       @ '', RawQuery:'' @ Quote tbl (RawQuery u)
       @ '', Fragment:'' @ Quote tbl (Fragment u)
       @ ''}''"

section \<open>The server: \<^verbatim>\<open>startServer\<close>\<close>

subsection \<open>The two handlers\<close>

text \<open>
  The handler of \<^verbatim>\<open>"/"\<close>: two calls of \<^verbatim>\<open>fmt.Fprintf\<close> on the response writer, each one
  \<^verbatim>\<open>Write\<close> of the formatted line.
\<close>

definition rootHandler :: "(rune \<Rightarrow> bool) \<Rightarrow> response \<Rightarrow> request \<Rightarrow> response" where
  "rootHandler tbl w r =
     (let w = Write w (''getHandler: incoming request'' @ [newline]);
          w = Write w (''getHandler: r.Url '' @ goSyntaxURL tbl (URL r) @ [newline])
      in w)"

text \<open>
  The handler of \<^verbatim>\<open>"/raw_body"\<close>: reads the whole body; on an error replies with
  \<^verbatim>\<open>http.Error\<close> and returns; otherwise prints the body with \<^verbatim>\<open>%s\<close>. The deferred
  \<^verbatim>\<open>r.Body.Close()\<close> runs on both paths and writes nothing to the response.
\<close>

definition rawBodyHandler :: "response \<Rightarrow> request \<Rightarrow> response" where
  "rawBodyHandler w r =
     (case ReadAll (Body r) of
        (body, Some err) \<Rightarrow> Error w err 500
      | (body, None) \<Rightarrow> Write w (''postHandler: raw body '' @ body @ [newline]))"

subsection \<open>The request multiplexer\<close>

text \<open>
  \<^verbatim>\<open>path.Clean\<close>, as its loop is written: \<open>out\<close> is the buffer written so far, \<open>dotdot\<close> the
  index where backtracking over \<^verbatim>\<open>..\<close> stops.
\<close>

fun backtrack :: "string \<Rightarrow> nat \<Rightarrow> nat \<Rightarrow> nat" where
  "backtrack out dotdot w =
     (if w > dotdot \<and> out ! w \<noteq> CHR ''/'' then backtrack out dotdot (w - 1) else w)"

declare backtrack.simps [simp del]

text \<open>
  One round of the loop at the byte \<open>c\<close> with \<open>cs\<close> after it: what is left to read, the
  buffer and \<open>dotdot\<close> after the round. The four cases are those of the \<^verbatim>\<open>switch\<close>: an
  empty element, a \<^verbatim>\<open>.\<close> element, a \<^verbatim>\<open>..\<close> element, a real element.
\<close>

definition cleanStep :: "bool \<Rightarrow> char \<Rightarrow> string \<Rightarrow> string \<Rightarrow> nat \<Rightarrow> string \<times> string \<times> nat" where
  "cleanStep rooted c cs out dotdot =
     (if c = CHR ''/'' then (cs, out, dotdot)
      else if c = CHR ''.'' \<and> (cs = [] \<or> hd cs = CHR ''/'') then (cs, out, dotdot)
      else if c = CHR ''.'' \<and> cs \<noteq> [] \<and> hd cs = CHR ''.''
                \<and> (tl cs = [] \<or> hd (tl cs) = CHR ''/'') then
        (if length out > dotdot then
           (tl cs, take (backtrack out dotdot (length out - 1)) out, dotdot)
         else if \<not> rooted then
           (tl cs, (if out \<noteq> [] then out @ ''/'' else out) @ ''..'',
            length ((if out \<noteq> [] then out @ ''/'' else out) @ ''..''))
         else (tl cs, out, dotdot))
      else
        (dropWhile (\<lambda>x. x \<noteq> CHR ''/'') cs,
         (if (rooted \<and> length out \<noteq> 1) \<or> (\<not> rooted \<and> length out \<noteq> 0) then out @ ''/'' else out)
           @ c # takeWhile (\<lambda>x. x \<noteq> CHR ''/'') cs,
         dotdot))"

lemma cleanStep_rest: "length (fst (cleanStep rooted c cs out dotdot)) \<le> length cs"
  by (simp add: cleanStep_def length_dropWhile_le)

function cleanLoop :: "bool \<Rightarrow> string \<Rightarrow> string \<Rightarrow> nat \<Rightarrow> string" where
  "cleanLoop rooted [] out dotdot = out"
| "cleanLoop rooted (c # cs) out dotdot =
     cleanLoop rooted (fst (cleanStep rooted c cs out dotdot))
       (fst (snd (cleanStep rooted c cs out dotdot)))
       (snd (snd (cleanStep rooted c cs out dotdot)))"
  by pat_completeness auto
termination
  by (relation "measure (\<lambda>(rooted, rest, out, dotdot). length rest)")
    (auto simp: le_imp_less_Suc cleanStep_rest split_beta)

definition Clean :: "string \<Rightarrow> string" where
  "Clean p =
     (if p = [] then ''.''
      else
        let rooted = (hd p = CHR ''/'');
            out = (if rooted then cleanLoop True (tl p) ''/'' 1 else cleanLoop False p [] 0)
        in if out = [] then ''.'' else out)"

text \<open>\<^verbatim>\<open>cleanPath\<close> of \<^verbatim>\<open>net/http\<close>: the canonical path, with a trailing slash kept.\<close>

definition cleanPath :: "string \<Rightarrow> string" where
  "cleanPath p0 =
     (if p0 = [] then ''/''
      else
        let p = (if hd p0 \<noteq> CHR ''/'' then ''/'' @ p0 else p0);
            np = Clean p
        in if last p = CHR ''/'' \<and> np \<noteq> ''/'' then
             (if length p = length np + 1 \<and> prefix np p then p else np @ ''/'')
           else np)"

text \<open>
  \<^verbatim>\<open>http.ServeMux\<close> (the multiplexer of the releases before the method patterns of Go 1.22,
  which route these two patterns the same way): \<open>mux_m\<close> maps a registered pattern to its
  handler, \<open>mux_es\<close> lists the patterns that end in a slash, longest first. No pattern of
  this program names a host, so the multiplexer never looks at the \<^verbatim>\<open>Host\<close> of a request,
  and the model leaves host patterns out. \<^verbatim>\<open>Handle\<close> panics on an empty or a repeated
  pattern; the program registers two distinct literals.
\<close>

type_synonym handler = "response \<Rightarrow> request \<Rightarrow> response"

record ServeMux =
  mux_m :: "string \<rightharpoonup> handler"
  mux_es :: "(string \<times> handler) list"

definition NewServeMux :: ServeMux where
  "NewServeMux = \<lparr>mux_m = Map.empty, mux_es = []\<rparr>"

definition appendSorted :: "(string \<times> handler) list \<Rightarrow> string \<times> handler \<Rightarrow> (string \<times> handler) list" where
  "appendSorted es e =
     takeWhile (\<lambda>x. \<not> length (fst x) < length (fst e)) es
       @ e # dropWhile (\<lambda>x. \<not> length (fst x) < length (fst e)) es"

definition HandleFunc :: "ServeMux \<Rightarrow> string \<Rightarrow> handler \<Rightarrow> ServeMux" where
  "HandleFunc mux pattern h =
     mux\<lparr>mux_m := (mux_m mux)(pattern \<mapsto> h),
         mux_es := (if last pattern = CHR ''/'' then appendSorted (mux_es mux) (pattern, h)
                    else mux_es mux)\<rparr>"

text \<open>\<^verbatim>\<open>match\<close>: the exact pattern first, then the longest registered prefix.\<close>

definition match :: "ServeMux \<Rightarrow> string \<Rightarrow> handler option" where
  "match mux path =
     (case mux_m mux path of
        Some h \<Rightarrow> Some h
      | None \<Rightarrow> map_option snd (find (\<lambda>e. prefix (fst e) path) (mux_es mux)))"

definition shouldRedirect :: "ServeMux \<Rightarrow> string \<Rightarrow> bool" where
  "shouldRedirect mux path =
     (if mux_m mux path \<noteq> None then False
      else if path = [] then False
      else if mux_m mux (path @ ''/'') \<noteq> None then last path \<noteq> CHR ''/''
      else False)"

text \<open>
  What the multiplexer picks for a request: a registered handler, its own redirect to a
  path and query (\<^verbatim>\<open>http.RedirectHandler\<close> with status 301), or \<^verbatim>\<open>http.NotFoundHandler\<close>.
\<close>

datatype route = Registered handler | RedirectTo string string | NotFound

definition muxLookup :: "ServeMux \<Rightarrow> string \<Rightarrow> route" where
  "muxLookup mux path = (case match mux path of Some h \<Rightarrow> Registered h | None \<Rightarrow> NotFound)"

definition muxHandler :: "ServeMux \<Rightarrow> request \<Rightarrow> route" where
  "muxHandler mux r =
     (if Method r = ''CONNECT'' then
        (if shouldRedirect mux (Path (URL r))
         then RedirectTo (Path (URL r) @ ''/'') (RawQuery (URL r))
         else muxLookup mux (Path (URL r)))
      else
        let path = cleanPath (Path (URL r)) in
        if shouldRedirect mux path then RedirectTo (path @ ''/'') (RawQuery (URL r))
        else if path \<noteq> Path (URL r) then RedirectTo path (RawQuery (URL r))
        else muxLookup mux (Path (URL r)))"

text \<open>
  What the server's handler made of a request: a response written through the
  \<^verbatim>\<open>ResponseWriter\<close>, or the multiplexer's redirect, of which the model keeps the status
  and the target and not the bytes \<^verbatim>\<open>http.Redirect\<close> writes.
\<close>

datatype reply = Handled response | Redirected nat string string

definition ProtoAtLeast :: "request \<Rightarrow> nat \<Rightarrow> nat \<Rightarrow> bool" where
  "ProtoAtLeast r major minor =
     (ProtoMajor r > major \<or> (ProtoMajor r = major \<and> ProtoMinor r \<ge> minor))"

definition ServeHTTP :: "ServeMux \<Rightarrow> response \<Rightarrow> request \<Rightarrow> reply" where
  "ServeHTTP mux w r =
     (if RequestURI r = ''*'' then
        Handled (WriteHeader
          (if ProtoAtLeast r 1 1 then w\<lparr>respHeader := (respHeader w)(''Connection'' \<mapsto> [''close''])\<rparr>
           else w) 400)
      else
        case muxHandler mux r of
          Registered h \<Rightarrow> Handled (h w r)
        | RedirectTo path query \<Rightarrow> Redirected 301 path query
        | NotFound \<Rightarrow> Handled (Error w ''404 page not found'' 404))"

subsection \<open>The multiplexer of \<^verbatim>\<open>startServer\<close>\<close>

definition startServer_mux :: "(rune \<Rightarrow> bool) \<Rightarrow> ServeMux" where
  "startServer_mux tbl =
     (let mux = NewServeMux;
          mux = HandleFunc mux ''/'' (rootHandler tbl);
          mux = HandleFunc mux ''/raw_body'' rawBodyHandler
      in mux)"

text \<open>
  \<^verbatim>\<open>server.Serve\<close>: every request gets a response writer of its own, and the handler of
  the server is the multiplexer.
\<close>

definition serve :: "(rune \<Rightarrow> bool) \<Rightarrow> request \<Rightarrow> reply" where
  "serve tbl r = ServeHTTP (startServer_mux tbl) newResponse r"

text \<open>
  Two parsed URLs that say the same: every field agrees, and the user information is
  absent in both or present in both. The server parses every request anew, so the
  \<^verbatim>\<open>Userinfo\<close> of two requests with the same request target are two objects, at
  addresses of their own.
\<close>

definition sameURL :: "url \<Rightarrow> url \<Rightarrow> bool" where
  "sameURL u1 u2 = (u1\<lparr>User := 0\<rparr> = u2\<lparr>User := 0\<rparr> \<and> (User u1 = 0) = (User u2 = 0))"

text \<open>The replies to the requests that arrive, one after the other.\<close>

definition serveAll :: "(rune \<Rightarrow> bool) \<Rightarrow> request list \<Rightarrow> reply list" where
  "serveAll tbl rs = map (serve tbl) rs"

section \<open>The client driver\<close>

text \<open>
  What the driver cannot decide is the world's: whether the listener binds and at which
  address, whether a URL parses, and how a round trip ends: with a transport error (its
  text) or with a response, of which the driver reads only the body stream.
\<close>

type_synonym duration = int

definition Second :: duration where
  "Second = 1000000000"

record dialer =
  Dialer_Timeout :: duration
  Dialer_KeepAlive :: duration

record transport =
  Transport_DialContext :: dialer
  Transport_MaxIdleConns :: int

record client =
  Client_Transport :: "transport option"
  Client_Timeout :: duration

record clientRequest =
  ReqMethod :: string
  ReqURL :: string
  ReqHeader :: "(string \<times> string) list"
  ReqBody :: "string option"

record world =
  netListen :: "string + string"
  urlParseError :: "string \<Rightarrow> string option"
  roundTrip :: "client \<Rightarrow> clientRequest \<Rightarrow> string + reader"

text \<open>\<^verbatim>\<open>http.DefaultClient\<close>: no transport of its own, no timeout.\<close>

definition DefaultClient :: client where
  "DefaultClient = \<lparr>Client_Transport = None, Client_Timeout = 0\<rparr>"

text \<open>
  \<^verbatim>\<open>http.NewRequest\<close> fails when the URL does not parse (the methods of this program are
  valid ones); \<^verbatim>\<open>Header.Set\<close> replaces the values of a key.
\<close>

definition NewRequest :: "world \<Rightarrow> string \<Rightarrow> string \<Rightarrow> string option \<Rightarrow> string + clientRequest" where
  "NewRequest wd meth rawurl body =
     (case urlParseError wd rawurl of
        Some err \<Rightarrow> Inl err
      | None \<Rightarrow> Inr \<lparr>ReqMethod = meth, ReqURL = rawurl, ReqHeader = [], ReqBody = body\<rparr>)"

definition HeaderSet :: "clientRequest \<Rightarrow> string \<Rightarrow> string \<Rightarrow> clientRequest" where
  "HeaderSet req k v = req\<lparr>ReqHeader := (k, v) # filter (\<lambda>kv. fst kv \<noteq> k) (ReqHeader req)\<rparr>"

definition clientDo :: "world \<Rightarrow> client \<Rightarrow> clientRequest \<Rightarrow> string + reader" where
  "clientDo wd c req = roundTrip wd c req"

text \<open>\<^verbatim>\<open>http.Get\<close>: builds the request and has the default client do it.\<close>

definition httpGet :: "world \<Rightarrow> string \<Rightarrow> string + reader" where
  "httpGet wd rawurl =
     (case NewRequest wd ''GET'' rawurl None of
        Inl err \<Rightarrow> Inl err
      | Inr req \<Rightarrow> clientDo wd DefaultClient req)"

text \<open>
  What a run does, in order: the calls it makes on the network, the reads and closes of a
  response body, and the lines it prints. \<open>Handoff\<close> is the one exchange on the channel
  \<^verbatim>\<open>addr\<close>. A function of the driver either returns or panics.
\<close>

datatype event =
    Handoff string
  | Stdout string
  | HttpGet string
  | ClientDo client clientRequest
  | ReadBody
  | CloseBody

datatype outcome = Returned | Panicked

text \<open>\<^verbatim>\<open>fmt.Println("error happend", err)\<close>: the operands with a space between, and a newline.\<close>

definition errorLine :: "string \<Rightarrow> string" where
  "errorLine err = ''error happend'' @ '' '' @ err @ [newline]"

text \<open>\<^verbatim>\<open>fmt.Printf\<close> of a label, the body as \<^verbatim>\<open>%#v\<close> of a string, and three newlines.\<close>

definition bodyLine :: "(rune \<Rightarrow> bool) \<Rightarrow> string \<Rightarrow> string \<Rightarrow> string" where
  "bodyLine tbl label respBytes = label @ '' '' @ Quote tbl respBytes @ [newline, newline, newline]"

definition runGet_url :: "string \<Rightarrow> string" where
  "runGet_url serverURL = serverURL @ ''/?param=123&param2=test''"

definition runGet :: "(rune \<Rightarrow> bool) \<Rightarrow> world \<Rightarrow> string \<Rightarrow> event list \<times> outcome" where
  "runGet tbl wd serverURL =
     (let rawurl = runGet_url serverURL in
      case httpGet wd rawurl of
        Inl err \<Rightarrow> ([HttpGet rawurl, Stdout (errorLine err)], Returned)
      | Inr resp \<Rightarrow>
          (case ReadAll resp of
             (respBytes, err) \<Rightarrow>
               ([HttpGet rawurl, ReadBody, Stdout (bodyLine tbl ''http.Get body'' respBytes), CloseBody],
                Returned)))"

definition runGetFullReq_url :: "string \<Rightarrow> string" where
  "runGetFullReq_url serverURL = serverURL @ ''/?id=42&user=rvasily''"

text \<open>
  The error of \<^verbatim>\<open>http.NewRequest\<close> is dropped: on a failure \<^verbatim>\<open>req\<close> is \<^verbatim>\<open>nil\<close> and
  \<^verbatim>\<open>req.Header.Set\<close> panics.
\<close>

definition runGetFullReq :: "(rune \<Rightarrow> bool) \<Rightarrow> world \<Rightarrow> string \<Rightarrow> event list \<times> outcome" where
  "runGetFullReq tbl wd serverURL =
     (let fullURL = runGetFullReq_url serverURL in
      case NewRequest wd ''GET'' fullURL None of
        Inl _ \<Rightarrow> ([], Panicked)
      | Inr req0 \<Rightarrow>
          let req = HeaderSet req0 ''User-Agent'' ''coursera/golang'' in
          case clientDo wd DefaultClient req of
            Inl err \<Rightarrow> ([ClientDo DefaultClient req, Stdout (errorLine err)], Returned)
          | Inr resp \<Rightarrow>
              (case ReadAll resp of
                 (respBytes, err) \<Rightarrow>
                   ([ClientDo DefaultClient req, ReadBody,
                     Stdout (bodyLine tbl ''testGetFullReq resp'' respBytes), CloseBody],
                    Returned)))"

definition runTransportAndPost_transport :: transport where
  "runTransportAndPost_transport =
     \<lparr>Transport_DialContext = \<lparr>Dialer_Timeout = 30 * Second, Dialer_KeepAlive = 30 * Second\<rparr>,
      Transport_MaxIdleConns = 100\<rparr>"

definition runTransportAndPost_client :: client where
  "runTransportAndPost_client =
     \<lparr>Client_Transport = Some runTransportAndPost_transport, Client_Timeout = Second * 10\<rparr>"

definition runTransportAndPost_data :: string where
  \<open>runTransportAndPost_data = ''{"id": 42, "user": "rvasily"}''\<close>

definition runTransportAndPost_url :: "string \<Rightarrow> string" where
  "runTransportAndPost_url serverURL = serverURL @ ''/raw_body''"

definition runTransportAndPost :: "(rune \<Rightarrow> bool) \<Rightarrow> world \<Rightarrow> string \<Rightarrow> event list \<times> outcome" where
  "runTransportAndPost tbl wd serverURL =
     (let rawurl = runTransportAndPost_url serverURL in
      case NewRequest wd ''POST'' rawurl (Some runTransportAndPost_data) of
        Inl _ \<Rightarrow> ([], Panicked)
      | Inr req0 \<Rightarrow>
          let req = HeaderSet req0 ''Content-Type'' ''application/json'' in
          case clientDo wd runTransportAndPost_client req of
            Inl err \<Rightarrow> ([ClientDo runTransportAndPost_client req, Stdout (errorLine err)], Returned)
          | Inr resp \<Rightarrow>
              (case ReadAll resp of
                 (respBytes, err) \<Rightarrow>
                   ([ClientDo runTransportAndPost_client req, ReadBody,
                     Stdout (bodyLine tbl ''runTransport'' respBytes), CloseBody],
                    Returned)))"

text \<open>
  The query a URL text carries, as \<^verbatim>\<open>url.Parse\<close> cuts it: what follows the first \<^verbatim>\<open>?\<close>,
  up to a fragment. The client sends it as it is, and the server finds it in \<open>RawQuery\<close>.
\<close>

definition rawQueryOf :: "string \<Rightarrow> string" where
  "rawQueryOf rawurl =
     drop 1 (dropWhile (\<lambda>c. c \<noteq> CHR ''?'') (takeWhile (\<lambda>c. c \<noteq> CHR ''#'') rawurl))"

section \<open>\<^verbatim>\<open>main\<close> and the two goroutines\<close>

text \<open>Statements in sequence: a panic ends the run, a return hands over to the next.\<close>

definition andThen :: "event list \<times> outcome \<Rightarrow> event list \<times> outcome \<Rightarrow> event list \<times> outcome" where
  "andThen a b = (case snd a of Panicked \<Rightarrow> a | Returned \<Rightarrow> (fst a @ fst b, snd b))"

text \<open>The three calls of \<^verbatim>\<open>main\<close>, one after the other.\<close>

definition driverCalls :: "(rune \<Rightarrow> bool) \<Rightarrow> world \<Rightarrow> string \<Rightarrow> event list \<times> outcome" where
  "driverCalls tbl wd serverURL =
     andThen (runGet tbl wd serverURL)
       (andThen (runGetFullReq tbl wd serverURL) (runTransportAndPost tbl wd serverURL))"

text \<open>\<^verbatim>\<open>main\<close> from the moment it has received the address.\<close>

definition mainAfterRecv :: "(rune \<Rightarrow> bool) \<Rightarrow> world \<Rightarrow> string \<Rightarrow> event list \<times> outcome" where
  "mainAfterRecv tbl wd addr =
     (let serverURL = ''http://'' @ addr in
      andThen ([Stdout (''Server started at:'' @ '' '' @ serverURL @ [newline])], Returned)
        (driverCalls tbl wd serverURL))"

text \<open>
  The process is two goroutines. The server goroutine builds the multiplexer, listens
  (the error of \<^verbatim>\<open>net.Listen\<close> is dropped: on a failure \<^verbatim>\<open>listener\<close> is \<^verbatim>\<open>nil\<close> and
  \<^verbatim>\<open>listener.Addr()\<close> panics), sends the address on the unbuffered channel and serves.
  The main goroutine starts it, blocks on the receive, and then runs its statements one
  event at a time. A send and a receive on an unbuffered channel happen together. A panic
  in either goroutine ends the process, and so does the return of \<^verbatim>\<open>main\<close>.
\<close>

datatype serverGoroutine = SrvNotStarted | SrvListening | SrvSending string | SrvServing

datatype mainGoroutine = MainStart | MainReceiving | MainRunning "event list" outcome | MainReturned

datatype process = Running | Exited | Crashed

record config =
  srvG :: serverGoroutine
  mainG :: mainGoroutine
  trace :: "event list"
  proc :: process

definition initial :: config where
  "initial = \<lparr>srvG = SrvNotStarted, mainG = MainStart, trace = [], proc = Running\<rparr>"

inductive step :: "(rune \<Rightarrow> bool) \<Rightarrow> world \<Rightarrow> config \<Rightarrow> config \<Rightarrow> bool"
  for tbl :: "rune \<Rightarrow> bool" and wd :: world where
  go: "proc c = Running \<Longrightarrow> mainG c = MainStart \<Longrightarrow>
       step tbl wd c (c\<lparr>srvG := SrvListening, mainG := MainReceiving\<rparr>)"
| listen_ok: "proc c = Running \<Longrightarrow> srvG c = SrvListening \<Longrightarrow> netListen wd = Inr a \<Longrightarrow>
       step tbl wd c (c\<lparr>srvG := SrvSending a\<rparr>)"
| listen_failed: "proc c = Running \<Longrightarrow> srvG c = SrvListening \<Longrightarrow> netListen wd = Inl err \<Longrightarrow>
       step tbl wd c (c\<lparr>proc := Crashed\<rparr>)"
| handoff: "proc c = Running \<Longrightarrow> srvG c = SrvSending a \<Longrightarrow> mainG c = MainReceiving \<Longrightarrow>
       step tbl wd c
         (c\<lparr>srvG := SrvServing,
            mainG := MainRunning (fst (mainAfterRecv tbl wd a)) (snd (mainAfterRecv tbl wd a)),
            trace := trace c @ [Handoff a]\<rparr>)"
| main_event: "proc c = Running \<Longrightarrow> mainG c = MainRunning (e # es) out \<Longrightarrow>
       step tbl wd c (c\<lparr>mainG := MainRunning es out, trace := trace c @ [e]\<rparr>)"
| main_returned: "proc c = Running \<Longrightarrow> mainG c = MainRunning [] Returned \<Longrightarrow>
       step tbl wd c (c\<lparr>mainG := MainReturned, proc := Exited\<rparr>)"
| main_panicked: "proc c = Running \<Longrightarrow> mainG c = MainRunning [] Panicked \<Longrightarrow>
       step tbl wd c (c\<lparr>proc := Crashed\<rparr>)"

definition reachable :: "(rune \<Rightarrow> bool) \<Rightarrow> world \<Rightarrow> config \<Rightarrow> bool" where
  "reachable tbl wd c = rtranclp (step tbl wd) initial c"

text \<open>
  The marks of a run that the order of \<^verbatim>\<open>main\<close> is about: the address handed over, a line
  printed, and the three calls, told apart by how they are made.
\<close>

datatype mark = AddrReported | Printed | SimpleGet | HeaderGet | TransportPost

fun markOf :: "event \<Rightarrow> mark option" where
  "markOf (Handoff a) = Some AddrReported"
| "markOf (Stdout s) = Some Printed"
| "markOf (HttpGet u) = Some SimpleGet"
| "markOf (ClientDo c req) = Some (if ReqMethod req = ''GET'' then HeaderGet else TransportPost)"
| "markOf ReadBody = None"
| "markOf CloseBody = None"

definition marks :: "event list \<Rightarrow> mark list" where
  "marks t = List.map_filter markOf t"

definition mainOrder :: "mark list" where
  "mainOrder =
     [AddrReported, Printed, SimpleGet, Printed, HeaderGet, Printed, TransportPost, Printed]"

section \<open>Text that Go quotes as it is\<close>

text \<open>
  Printable ASCII other than the double quote and the backslash: \<^verbatim>\<open>strconv.Quote\<close> copies
  such bytes unchanged.
\<close>

definition plainText :: "string \<Rightarrow> bool" where
  "plainText s =
     list_all (\<lambda>c. 0x20 \<le> (of_char c :: nat) \<and> (of_char c :: nat) \<le> 0x7E
                  \<and> c \<noteq> dquote \<and> c \<noteq> backslash) s"

section \<open>Concrete inputs\<close>

text \<open>A print table that lists no rune above \<^verbatim>\<open>0xFF\<close>, for the evaluation of examples.\<close>

definition latin1Table :: "rune \<Rightarrow> bool" where
  "latin1Table r = False"

definition exampleURL :: url where
  "exampleURL =
     \<lparr>Scheme = [], Opaque = [], User = 0, Host = [], Path = ''/'', RawPath = [],
      ForceQuery = False, RawQuery = ''param=123&param2=test'', Fragment = []\<rparr>"

definition exampleGet :: request where
  "exampleGet =
     \<lparr>Method = ''GET'', URL = exampleURL, Proto = ''HTTP/1.1'', ProtoMajor = 1, ProtoMinor = 1,
      Header = [(''User-Agent'', [''Go-http-client/1.1''])], Body = Reader [] None,
      ReqHost = ''127.0.0.1:8080'', RemoteAddr = ''127.0.0.1:51000'',
      RequestURI = ''/?param=123&param2=test''\<rparr>"

definition examplePost :: request where
  "examplePost =
     \<lparr>Method = ''POST'', URL = exampleURL\<lparr>Path := ''/raw_body'', RawQuery := []\<rparr>,
      Proto = ''HTTP/1.1'', ProtoMajor = 1, ProtoMinor = 1,
      Header = [(''Content-Type'', [''application/json''])],
      Body = Reader runTransportAndPost_data None,
      ReqHost = ''127.0.0.1:8080'', RemoteAddr = ''127.0.0.1:51000'',
      RequestURI = ''/raw_body''\<rparr>"

definition exampleGetFullReq :: request where
  "exampleGetFullReq =
     exampleGet\<lparr>URL := exampleURL\<lparr>RawQuery := ''id=42&user=rvasily''\<rparr>,
       Header := [(''User-Agent'', [''coursera/golang''])],
       RequestURI := ''/?id=42&user=rvasily''\<rparr>"

text \<open>A body stream that breaks after eight bytes.\<close>

definition exampleFailedPost :: request where
  \<open>exampleFailedPost = examplePost\<lparr>Body := Reader ''{"id": 4'' (Some ''unexpected EOF'')\<rparr>\<close>

text \<open>A path with a repeated slash, and a query with double quotes in it.\<close>

definition exampleUnclean :: request where
  "exampleUnclean =
     exampleGet\<lparr>URL := exampleURL\<lparr>Path := ''//''\<rparr>, RequestURI := ''//?param=123&param2=test''\<rparr>"

definition exampleQuoted :: request where
  \<open>exampleQuoted = exampleGet\<lparr>URL := exampleURL\<lparr>RawQuery := ''q="a"''\<rparr>, RequestURI := ''/?q="a"''\<rparr>\<close>

text \<open>The first GET again, as another client on another connection sends it.\<close>

definition exampleGetOther :: request where
  "exampleGetOther =
     exampleGet\<lparr>Proto := ''HTTP/1.0'', ProtoMinor := 0, Header := [(''Accept'', [''*/*''])],
       ReqHost := ''localhost:8080'', RemoteAddr := ''127.0.0.1:51001''\<rparr>"

text \<open>
  The request target \<^verbatim>\<open>http://u@127.0.0.1:8080/?param=123&param2=test\<close>, sent twice: the
  two URLs differ in the address of the \<^verbatim>\<open>Userinfo\<close> and in nothing else.
\<close>

definition exampleUserinfo :: "nat \<Rightarrow> request" where
  "exampleUserinfo address =
     exampleGet\<lparr>URL := exampleURL\<lparr>Scheme := ''http'', User := address, Host := ''127.0.0.1:8080''\<rparr>,
       RequestURI := ''http://u@127.0.0.1:8080/?param=123&param2=test''\<rparr>"

text \<open>
  A world in which the listener binds and every round trip is refused; one in which every
  response breaks off while its body is read; and one in which the listener does not bind.
\<close>

definition exampleServerURL :: string where
  "exampleServerURL = ''http://127.0.0.1:8080''"

definition exampleRefused :: string where
  "exampleRefused = ''dial tcp 127.0.0.1:8080: connect: connection refused''"

definition exampleWorld :: world where
  "exampleWorld =
     \<lparr>netListen = Inr ''127.0.0.1:8080'',
      urlParseError = (\<lambda>u. None),
      roundTrip = (\<lambda>c req. Inl exampleRefused)\<rparr>"

definition exampleBrokenBody :: world where
  "exampleBrokenBody =
     exampleWorld\<lparr>roundTrip := (\<lambda>c req. Inr (Reader ''getHandler: inc'' (Some ''unexpected EOF'')))\<rparr>"

definition exampleNoListener :: world where
  "exampleNoListener = exampleWorld\<lparr>netListen := Inl ''listen tcp :0: socket: too many open files''\<rparr>"

text \<open>The end of the run in the first of these worlds.\<close>

definition exampleFinal :: config where
  "exampleFinal =
     \<lparr>srvG = SrvServing, mainG = MainReturned,
      trace =
        [Handoff ''127.0.0.1:8080'',
         Stdout (''Server started at: http://127.0.0.1:8080'' @ [newline]),
         HttpGet ''http://127.0.0.1:8080/?param=123&param2=test'',
         Stdout (''error happend '' @ exampleRefused @ [newline]),
         ClientDo DefaultClient
           \<lparr>ReqMethod = ''GET'', ReqURL = ''http://127.0.0.1:8080/?id=42&user=rvasily'',
            ReqHeader = [(''User-Agent'', ''coursera/golang'')], ReqBody = None\<rparr>,
         Stdout (''error happend '' @ exampleRefused @ [newline]),
         ClientDo runTransportAndPost_client
           \<lparr>ReqMethod = ''POST'', ReqURL = ''http://127.0.0.1:8080/raw_body'',
            ReqHeader = [(''Content-Type'', ''application/json'')],
            ReqBody = Some runTransportAndPost_data\<rparr>,
         Stdout (''error happend '' @ exampleRefused @ [newline])],
      proc = Exited\<rparr>"

section \<open>Properties of the server\<close>

lemmas clean_eval = cleanPath_def Clean_def cleanStep_def backtrack.simps

lemmas quote_eval = Quote_def firstRune_def appendEscapedRune_def IsPrint_def AppendRune_def
  dquote_def backslash_def newline_def RuneError_def char_of_eq_iff

lemmas syntax_eval = goSyntaxURL_def fmtPointer_def fmtBool_def quote_eval

subsection \<open>What the multiplexer of \<^verbatim>\<open>startServer\<close> picks\<close>

lemma mux_m_startServer:
  "mux_m (startServer_mux tbl) = [''/'' \<mapsto> rootHandler tbl, ''/raw_body'' \<mapsto> rawBodyHandler]"
  by (simp add: startServer_mux_def HandleFunc_def NewServeMux_def)

lemma mux_es_startServer:
  "mux_es (startServer_mux tbl) = [(''/'', rootHandler tbl)]"
  by (simp add: startServer_mux_def HandleFunc_def NewServeMux_def appendSorted_def)

lemma match_raw_body: "match (startServer_mux tbl) ''/raw_body'' = Some rawBodyHandler"
  by (simp add: match_def mux_m_startServer)

lemma match_root:
  assumes "prefix ''/'' p" "p \<noteq> ''/raw_body''"
  shows "match (startServer_mux tbl) p = Some (rootHandler tbl)"
  using assms by (auto simp: match_def mux_m_startServer mux_es_startServer)

lemma match_unrooted:
  assumes "\<not> prefix ''/'' p"
  shows "match (startServer_mux tbl) p = None"
  using assms by (auto simp: match_def mux_m_startServer mux_es_startServer)

lemma shouldRedirect_startServer: "shouldRedirect (startServer_mux tbl) p = False"
  by (auto simp: shouldRedirect_def mux_m_startServer)

lemma cleanPath_raw_body: "cleanPath ''/raw_body'' = ''/raw_body''"
  by (simp add: cleanPath_def Clean_def cleanStep_def)

lemma muxHandler_raw_body:
  assumes "Path (URL r) = ''/raw_body''"
  shows "muxHandler (startServer_mux tbl) r = Registered rawBodyHandler"
  using assms
  by (simp add: muxHandler_def shouldRedirect_startServer cleanPath_raw_body muxLookup_def
      match_raw_body Let_def)

lemma muxHandler_root:
  assumes "Method r = ''CONNECT'' \<or> cleanPath (Path (URL r)) = Path (URL r)"
    and "prefix ''/'' (Path (URL r))" and "Path (URL r) \<noteq> ''/raw_body''"
  shows "muxHandler (startServer_mux tbl) r = Registered (rootHandler tbl)"
  using assms
  by (auto simp: muxHandler_def shouldRedirect_startServer muxLookup_def match_root Let_def)

subsection \<open>The route \<^verbatim>\<open>/raw_body\<close>\<close>

lemma rawBodyHandler_ok:
  assumes "ReadAll (Body r) = (b, None)"
  shows "rawBodyHandler newResponse r =
    \<lparr>wroteHeader = True, status = 200, respHeader = Map.empty,
     respBody = ''postHandler: raw body '' @ b @ [newline]\<rparr>"
  using assms by (simp add: rawBodyHandler_def Write_def WriteHeader_def newResponse_def)

lemma rawBodyHandler_failed:
  assumes "ReadAll (Body r) = (b, Some err)"
  shows "rawBodyHandler newResponse r =
    \<lparr>wroteHeader = True, status = 500,
     respHeader = [''Content-Type'' \<mapsto> [''text/plain; charset=utf-8''],
                   ''X-Content-Type-Options'' \<mapsto> [''nosniff'']],
     respBody = err @ [newline]\<rparr>"
  using assms
  by (simp add: rawBodyHandler_def Error_def Write_def WriteHeader_def newResponse_def)

lemma rootHandler_new:
  "rootHandler tbl newResponse r =
    \<lparr>wroteHeader = True, status = 200, respHeader = Map.empty,
     respBody = ''getHandler: incoming request'' @ [newline]
        @ ''getHandler: r.Url '' @ goSyntaxURL tbl (URL r) @ [newline]\<rparr>"
  by (simp add: rootHandler_def Write_def WriteHeader_def newResponse_def)

text \<open>
  Claim C1, as amended. A request with the path \<^verbatim>\<open>/raw_body\<close> whose body is read to the end
  as the bytes \<open>b\<close> is answered by the handler of \<^verbatim>\<open>/raw_body\<close>, with status 200, no header
  of the handler's own, and the body \<^verbatim>\<open>postHandler: raw body\<close>, a space, the bytes \<open>b\<close>
  unchanged, and one newline. (\<^verbatim>\<open>ServeMux\<close> answers the request target \<^verbatim>\<open>*\<close> itself, with
  status 400.)
\<close>

theorem raw_body_echo:
  assumes "Path (URL r) = ''/raw_body''" and "RequestURI r \<noteq> ''*''"
    and "ReadAll (Body r) = (b, None)"
  shows "serve tbl r = Handled
    \<lparr>wroteHeader = True, status = 200, respHeader = Map.empty,
     respBody = ''postHandler: raw body '' @ b @ [newline]\<rparr>"
  using assms
  by (simp add: serve_def ServeHTTP_def muxHandler_raw_body rawBodyHandler_ok)

text \<open>
  The POST of the driver: the literal comes back after the prefix, followed by the newline
  that ends the line.
\<close>

theorem raw_body_echo_witness:
  \<open>Path (URL examplePost) = ''/raw_body'' \<and> RequestURI examplePost \<noteq> ''*''
   \<and> ReadAll (Body examplePost) = (''{"id": 42, "user": "rvasily"}'', None)
   \<and> serve latin1Table examplePost = Handled
       \<lparr>wroteHeader = True, status = 200, respHeader = Map.empty,
        respBody = ''postHandler: raw body {"id": 42, "user": "rvasily"}\<newline>''\<rparr>\<close>
proof -
  have p: "Path (URL examplePost) = ''/raw_body''"
    by (simp add: examplePost_def exampleURL_def)
  have u: "RequestURI examplePost \<noteq> ''*''"
    by (simp add: examplePost_def)
  have b: \<open>ReadAll (Body examplePost) = (''{"id": 42, "user": "rvasily"}'', None)\<close>
    by (simp add: examplePost_def runTransportAndPost_data_def)
  show ?thesis
    using p u b raw_body_echo [OF p u b, of latin1Table] by (simp add: newline_def)
qed

text \<open>
  Claim C1 as stated gives the body of that response as the line without its newline;
  the body of the response is not that text.
\<close>

theorem raw_body_literal_counterexample:
  \<open>respBody (rawBodyHandler newResponse examplePost)
     \<noteq> ''postHandler: raw body {"id": 42, "user": "rvasily"}''\<close>
  by (simp add: rawBodyHandler_def Write_def WriteHeader_def newResponse_def examplePost_def
      runTransportAndPost_data_def)


text \<open>
  Claim C2, as amended. When reading the body of a request to \<^verbatim>\<open>/raw_body\<close> fails with
  the error \<open>err\<close>, whatever bytes were read before, the response has status 500, the
  headers \<^verbatim>\<open>http.Error\<close> sets, and as its body the text of the error followed by one
  newline; the line \<^verbatim>\<open>postHandler: raw body\<close> is not written.
\<close>

theorem raw_body_read_failure:
  assumes "Path (URL r) = ''/raw_body''" and "RequestURI r \<noteq> ''*''"
    and "ReadAll (Body r) = (b, Some err)"
  shows "serve tbl r = Handled
    \<lparr>wroteHeader = True, status = 500,
     respHeader = [''Content-Type'' \<mapsto> [''text/plain; charset=utf-8''],
                   ''X-Content-Type-Options'' \<mapsto> [''nosniff'']],
     respBody = err @ [newline]\<rparr>"
  using assms
  by (simp add: serve_def ServeHTTP_def muxHandler_raw_body rawBodyHandler_failed)

theorem raw_body_read_failure_witness:
  \<open>Path (URL exampleFailedPost) = ''/raw_body'' \<and> RequestURI exampleFailedPost \<noteq> ''*''
   \<and> ReadAll (Body exampleFailedPost) = (''{"id": 4'', Some ''unexpected EOF'')
   \<and> serve latin1Table exampleFailedPost = Handled
       \<lparr>wroteHeader = True, status = 500,
        respHeader = [''Content-Type'' \<mapsto> [''text/plain; charset=utf-8''],
                      ''X-Content-Type-Options'' \<mapsto> [''nosniff'']],
        respBody = ''unexpected EOF\<newline>''\<rparr>\<close>
proof -
  have p: "Path (URL exampleFailedPost) = ''/raw_body''"
    by (simp add: exampleFailedPost_def examplePost_def exampleURL_def)
  have u: "RequestURI exampleFailedPost \<noteq> ''*''"
    by (simp add: exampleFailedPost_def examplePost_def)
  have b: \<open>ReadAll (Body exampleFailedPost) = (''{"id": 4'', Some ''unexpected EOF'')\<close>
    by (simp add: exampleFailedPost_def)
  show ?thesis
    using p u b raw_body_read_failure [OF p u b, of latin1Table] by (simp add: newline_def)
qed

text \<open>
  Claim C2 as stated has the body equal to the text of the error: the status is 500, and
  the body is not that text, but the text and a newline.
\<close>

theorem raw_body_error_text_counterexample:
  "status (rawBodyHandler newResponse exampleFailedPost) = 500
   \<and> respBody (rawBodyHandler newResponse exampleFailedPost) \<noteq> ''unexpected EOF''"
  by (simp add: rawBodyHandler_def Error_def Write_def WriteHeader_def newResponse_def
      exampleFailedPost_def)

subsection \<open>Quoted text has no newline\<close>

lemma byte_not_newline: "11 \<le> a \<Longrightarrow> a < 256 \<Longrightarrow> (a::nat) mod 256 \<noteq> 10"
  by simp

lemma lead_not_newline:
  assumes "(r::nat) \<le> m" "m div k \<le> 15" 
  shows "(0xC0 + r div k) mod 256 \<noteq> 10" "(0xE0 + r div k) mod 256 \<noteq> 10" "(0xF0 + r div k) mod 256 \<noteq> 10"
proof -
  have "r div k \<le> m div k" using assms(1) by (rule div_le_mono)
  then have "r div k \<le> 15" using assms(2) by linarith
  then show "(0xC0 + r div k) mod 256 \<noteq> 10" "(0xE0 + r div k) mod 256 \<noteq> 10" "(0xF0 + r div k) mod 256 \<noteq> 10"
    by (simp_all add: byte_not_newline)
qed

lemma lead2_not_newline:
  assumes "(r::nat) \<le> 0x7FF"
  shows "(0xC0 + r div 64) mod 256 \<noteq> 10"
proof -
  have "r div 64 \<le> 0x7FF div 64" using assms by (rule div_le_mono)
  then have "r div 64 \<le> 31" by simp
  then show ?thesis by (simp add: byte_not_newline)
qed

lemma cont_not_newline: "(0x80 + (x::nat) mod 64) mod 256 \<noteq> 10"
proof -
  have "x mod 64 < 64" by simp
  then show ?thesis by (simp add: byte_not_newline)
qed


lemma lowerhex_no_newline: "lowerhex d \<noteq> newline"
proof -
  have "lowerhex d \<in> set ''0123456789abcdef''"
    unfolding lowerhex_def by (rule nth_mem) simp
  then show ?thesis
    by (auto simp: newline_def)
qed

lemma hexDigits_no_newline: "newline \<notin> set (hexDigits n r)"
proof
  assume "newline \<in> set (hexDigits n r)"
  then obtain i where "newline = lowerhex (r div 16 ^ i)"
    by (auto simp: hexDigits_def)
  then show False
    using lowerhex_no_newline [of "r div 16 ^ i"] by simp
qed

lemma char_of_newline_iff1: "char_of (n::nat) = newline \<longleftrightarrow> n mod 256 = 10"
  by (simp add: newline_def char_of_eq_iff take_bit_eq_mod)

lemma char_of_newline_iff2: "newline = char_of (n::nat) \<longleftrightarrow> n mod 256 = 10"
  using char_of_newline_iff1 [of n] by auto

lemmas char_of_newline_iff = char_of_newline_iff1 char_of_newline_iff2

lemma AppendRune_no_newline:
  assumes "r \<noteq> 10"
  shows "newline \<notin> set (AppendRune r)"
proof -
  consider (one) "r \<le> 0x7F"
    | (two) "\<not> r \<le> 0x7F" "r \<le> 0x7FF"
    | (bad) "\<not> r \<le> 0x7F" "\<not> r \<le> 0x7FF" "\<not> ValidRune r"
    | (three) "\<not> r \<le> 0x7F" "\<not> r \<le> 0x7FF" "ValidRune r" "r \<le> 0xFFFF"
    | (four) "\<not> r \<le> 0x7F" "\<not> r \<le> 0x7FF" "ValidRune r" "\<not> r \<le> 0xFFFF"
    by blast
  then show ?thesis
  proof cases
    case one
    then have "r mod 256 \<noteq> 10" using assms by simp
    with one show ?thesis
      by (simp add: AppendRune_def char_of_newline_iff)
  next
    case two
    then show ?thesis
      using lead2_not_newline [of r] cont_not_newline [of r]
      by (simp add: AppendRune_def char_of_newline_iff)
  next
    case bad
    then show ?thesis
      by (simp add: AppendRune_def char_of_newline_iff)
  next
    case three
    then show ?thesis
      using lead_not_newline(2) [of r "0xFFFF" 4096] cont_not_newline [of r]
        cont_not_newline [of "r div 64"]
      by (simp add: AppendRune_def char_of_newline_iff)
  next
    case four
    then have "r \<le> 0x10FFFF" by (auto simp: ValidRune_def)
    with four show ?thesis
      using lead_not_newline(3) [of r "0x10FFFF" 262144] cont_not_newline [of r]
        cont_not_newline [of "r div 64"] cont_not_newline [of "r div 4096"]
      by (simp add: AppendRune_def char_of_newline_iff)
  qed
qed


lemma appendEscapedRune_no_newline: "newline \<notin> set (appendEscapedRune tbl r)"
proof -
  have pr: "IsPrint tbl r \<Longrightarrow> newline \<notin> set (AppendRune r)"
    by (rule AppendRune_no_newline) (auto simp: IsPrint_def split: if_splits)
  have bn: "backslash \<noteq> newline"
    by (simp add: newline_def backslash_def)
  have "of_char dquote = (34::nat)" "of_char backslash = (92::nat)"
    by (simp_all add: dquote_def backslash_def)
  then have q: "r = of_char dquote \<or> r = of_char backslash \<Longrightarrow> newline \<notin> set [backslash, char_of r]"
    using bn by (auto simp: char_of_newline_iff)
  show ?thesis
    unfolding appendEscapedRune_def
    using pr [unfolded newline_def] q [unfolded newline_def]
      hexDigits_no_newline [unfolded newline_def]
    by (auto simp: newline_def backslash_def)
qed

lemma quoteLoop_no_newline: "newline \<notin> set (quoteLoop tbl s)"
proof (induction tbl s rule: quoteLoop.induct)
  case (1 tbl)
  show ?case by simp
next
  case (2 tbl c cs)
  have bx: "newline \<notin> set [backslash, CHR ''x'']"
    by (simp add: newline_def backslash_def)
  show ?case
  proof (cases "snd (firstRune (c # cs)) = 1 \<and> fst (firstRune (c # cs)) = RuneError")
    case True
    then have "newline \<notin> set (quoteLoop tbl cs)"
      using "2.IH"(1) by simp
    with True bx show ?thesis
      using hexDigits_no_newline [of 2 "of_char c"] by simp
  next
    case False
    then have "newline \<notin> set (quoteLoop tbl (drop (snd (firstRune (c # cs)) - 1) cs))"
      using "2.IH"(2) by simp
    with False show ?thesis
      using appendEscapedRune_no_newline [of tbl "fst (firstRune (c # cs))"] by auto
  qed
qed

lemma Quote_no_newline: "newline \<notin> set (Quote tbl s)"
proof -
  have "dquote \<noteq> newline"
    by (simp add: newline_def dquote_def)
  then show ?thesis
    using quoteLoop_no_newline [of tbl s] by (auto simp: Quote_def)
qed

lemma fmtPointer_no_newline: "newline \<notin> set (fmtPointer ''*url.Userinfo'' u)"
proof -
  have "newline \<notin> set (dropWhile (\<lambda>c. c = CHR ''0'') (hexDigits 16 u))"
    using hexDigits_no_newline [of 16 u] set_dropWhileD by fast
  then show ?thesis
    unfolding fmtPointer_def fmt0x64_def newline_def by simp
qed

lemma fmtBool_no_newline: "newline \<notin> set (fmtBool b)"
  by (simp add: fmtBool_def newline_def)

lemma goSyntaxURL_no_newline: "newline \<notin> set (goSyntaxURL tbl u)"
proof -
  have lit: "newline \<notin> set ''&url.URL{''" "newline \<notin> set ''Scheme:''"
    "newline \<notin> set '', Opaque:''" "newline \<notin> set '', User:''" "newline \<notin> set '', Host:''"
    "newline \<notin> set '', Path:''" "newline \<notin> set '', RawPath:''"
    "newline \<notin> set '', ForceQuery:''" "newline \<notin> set '', RawQuery:''"
    "newline \<notin> set '', Fragment:''" "newline \<notin> set ''}''"
    by (simp_all add: newline_def)
  show ?thesis
    unfolding goSyntaxURL_def set_append Un_iff
    using lit Quote_no_newline fmtPointer_no_newline fmtBool_no_newline
    by blast
qed

subsection \<open>The route \<^verbatim>\<open>/\<close>\<close>

text \<open>
  Claim C3, as amended. A request that \<^verbatim>\<open>ServeMux\<close> hands to the handler of \<^verbatim>\<open>/\<close> gets
  status 200 and a body of exactly two lines: \<^verbatim>\<open>getHandler: incoming request\<close>, and
  \<^verbatim>\<open>getHandler: r.Url\<close> with the debug representation of the URL; neither line has a
  newline inside. These are the requests whose target is not \<^verbatim>\<open>*\<close>, whose path starts
  with a slash and is not \<^verbatim>\<open>/raw_body\<close>, and whose path is in canonical form (or whose
  method is \<^verbatim>\<open>CONNECT\<close>, for which \<^verbatim>\<open>ServeMux\<close> skips the canonical form).
\<close>

theorem root_two_lines:
  assumes "RequestURI r \<noteq> ''*''"
    and "Method r = ''CONNECT'' \<or> cleanPath (Path (URL r)) = Path (URL r)"
    and "prefix ''/'' (Path (URL r))" and "Path (URL r) \<noteq> ''/raw_body''"
  shows "serve tbl r = Handled
      \<lparr>wroteHeader = True, status = 200, respHeader = Map.empty,
       respBody = ''getHandler: incoming request'' @ [newline]
          @ ''getHandler: r.Url '' @ goSyntaxURL tbl (URL r) @ [newline]\<rparr>
    \<and> newline \<notin> set ''getHandler: incoming request''
    \<and> newline \<notin> set (''getHandler: r.Url '' @ goSyntaxURL tbl (URL r))"
proof -
  have "newline \<notin> set ''getHandler: incoming request''" "newline \<notin> set ''getHandler: r.Url ''"
    by (simp_all add: newline_def)
  moreover have "serve tbl r = Handled (rootHandler tbl newResponse r)"
    using assms by (simp add: serve_def ServeHTTP_def muxHandler_root)
  ultimately show ?thesis
    using goSyntaxURL_no_newline [of tbl "URL r"] by (simp add: rootHandler_new)
qed

theorem root_two_lines_witness:
  \<open>RequestURI exampleGet \<noteq> ''*''
   \<and> cleanPath (Path (URL exampleGet)) = Path (URL exampleGet)
   \<and> prefix ''/'' (Path (URL exampleGet)) \<and> Path (URL exampleGet) \<noteq> ''/raw_body''
   \<and> serve latin1Table exampleGet = Handled
      \<lparr>wroteHeader = True, status = 200, respHeader = Map.empty,
       respBody = ''getHandler: incoming request\<newline>getHandler: r.Url &url.URL{Scheme:"", Opaque:"", User:(*url.Userinfo)(nil), Host:"", Path:"/", RawPath:"", ForceQuery:false, RawQuery:"param=123&param2=test", Fragment:""}\<newline>''\<rparr>\<close>
proof -
  have u: "RequestURI exampleGet \<noteq> ''*''"
    by (simp add: exampleGet_def)
  have c: "cleanPath (Path (URL exampleGet)) = Path (URL exampleGet)"
    by (simp add: exampleGet_def exampleURL_def clean_eval)
  have p: "prefix ''/'' (Path (URL exampleGet))"
    by (simp add: exampleGet_def exampleURL_def)
  have n: "Path (URL exampleGet) \<noteq> ''/raw_body''"
    by (simp add: exampleGet_def exampleURL_def)
  have g: \<open>goSyntaxURL latin1Table (URL exampleGet) = ''&url.URL{Scheme:"", Opaque:"", User:(*url.Userinfo)(nil), Host:"", Path:"/", RawPath:"", ForceQuery:false, RawQuery:"param=123&param2=test", Fragment:""}''\<close>
    by (simp add: exampleGet_def exampleURL_def syntax_eval)
  show ?thesis
    using u c p n root_two_lines [OF u disjI2 [OF c] p n, of latin1Table]
    by (simp add: g) (simp add: newline_def)
qed

text \<open>
  Claim C3 as stated covers every path other than \<^verbatim>\<open>/raw_body\<close>. A GET of \<^verbatim>\<open>//\<close> is not
  handled by the handler of \<^verbatim>\<open>/\<close>: \<^verbatim>\<open>ServeMux\<close> redirects a path with a repeated slash or
  a dot element to its canonical form, with status 301.
\<close>

theorem unclean_path_counterexample:
  "serve latin1Table exampleUnclean = Redirected 301 ''/'' ''param=123&param2=test''"
  by (simp add: serve_def ServeHTTP_def muxHandler_def shouldRedirect_startServer
      exampleUnclean_def exampleGet_def exampleURL_def clean_eval)

text \<open>
  So it is for every request other than a \<^verbatim>\<open>CONNECT\<close> whose path is not in canonical
  form: the multiplexer answers with the redirect, and no handler runs.
\<close>

lemma unclean_path_redirected:
  assumes "RequestURI r \<noteq> ''*''" and "Method r \<noteq> ''CONNECT''"
    and "cleanPath (Path (URL r)) \<noteq> Path (URL r)"
  shows "serve tbl r = Redirected 301 (cleanPath (Path (URL r))) (RawQuery (URL r))"
  using assms
  by (simp add: serve_def ServeHTTP_def muxHandler_def shouldRedirect_startServer Let_def)

subsection \<open>The query in the response of \<^verbatim>\<open>/\<close>\<close>

lemma quoteLoop_plain: "plainText s \<Longrightarrow> quoteLoop tbl s = s"
proof (induction s)
  case Nil
  show ?case by simp
next
  case (Cons c cs)
  then have c: "0x20 \<le> (of_char c :: nat)" "(of_char c :: nat) \<le> 0x7E" "c \<noteq> dquote" "c \<noteq> backslash"
    and cs: "quoteLoop tbl cs = cs"
    by (simp_all add: plainText_def)
  have fr: "firstRune (c # cs) = (of_char c, 1)"
    using c by (simp add: firstRune_def)
  have ne: "(of_char c :: nat) \<noteq> RuneError"
    using c by (simp add: RuneError_def)
  have "(of_char c :: nat) \<noteq> of_char dquote" "(of_char c :: nat) \<noteq> of_char backslash"
    using c by simp_all
  then have "appendEscapedRune tbl (of_char c) = [c]"
    using c by (simp add: appendEscapedRune_def IsPrint_def AppendRune_def)
  then show ?case
    using fr ne cs by simp
qed

lemma rawQueryOf_append:
  assumes "CHR ''?'' \<notin> set s" "CHR ''#'' \<notin> set s" "CHR ''#'' \<notin> set q"
  shows "rawQueryOf (s @ ''/?'' @ q) = q"
proof -
  have "takeWhile (\<lambda>c. c \<noteq> CHR ''#'') (s @ ''/?'' @ q) = s @ ''/?'' @ q"
    using assms by (auto simp: takeWhile_eq_all_conv)
  moreover have "dropWhile (\<lambda>c. c \<noteq> CHR ''?'') (s @ ''/?'' @ q) = ''?'' @ q"
    using assms by (subst dropWhile_append2) auto
  ultimately show ?thesis
    unfolding rawQueryOf_def by (simp only:) simp
qed

lemma root_body_query:
  "sublist ('', RawQuery:'' @ Quote tbl (RawQuery (URL r)) @ '', Fragment:'')
     (respBody (rootHandler tbl newResponse r))"
proof -
  define ps where "ps = ''getHandler: incoming request'' @ [newline] @ ''getHandler: r.Url ''
       @ ''&url.URL{'' @ ''Scheme:'' @ Quote tbl (Scheme (URL r))
       @ '', Opaque:'' @ Quote tbl (Opaque (URL r))
       @ '', User:'' @ fmtPointer ''*url.Userinfo'' (User (URL r))
       @ '', Host:'' @ Quote tbl (Host (URL r))
       @ '', Path:'' @ Quote tbl (Path (URL r))
       @ '', RawPath:'' @ Quote tbl (RawPath (URL r))
       @ '', ForceQuery:'' @ fmtBool (ForceQuery (URL r))"
  define ss where "ss = Quote tbl (Fragment (URL r)) @ ''}'' @ [newline]"
  have "respBody (rootHandler tbl newResponse r)
      = ps @ ('', RawQuery:'' @ Quote tbl (RawQuery (URL r)) @ '', Fragment:'') @ ss"
    by (simp add: rootHandler_new goSyntaxURL_def ps_def ss_def)
  then show ?thesis
    by (simp only: sublist_appendI)
qed

lemma sublist_inner: "sublist q (a @ (b @ q @ c) @ d)"
proof -
  have "a @ (b @ q @ c) @ d = (a @ b) @ q @ (c @ d)" by simp
  then show ?thesis by (simp only: sublist_appendI)
qed

text \<open>
  Claim C4, as amended. The body written by the handler of \<^verbatim>\<open>/\<close> holds the query of the
  request in Go quotes, after \<^verbatim>\<open>RawQuery:\<close>. When the query is printable ASCII without a
  double quote or a backslash, the quoted form is the query between two quotes, and the
  body holds the query as the caller sent it. That is so for the two GET calls of the
  driver, whatever the server's address: the bodies hold \<^verbatim>\<open>param=123&param2=test\<close> and
  \<^verbatim>\<open>id=42&user=rvasily\<close>.
\<close>

theorem root_embeds_query:
  "sublist ('', RawQuery:'' @ Quote tbl (RawQuery (URL r)) @ '', Fragment:'')
      (respBody (rootHandler tbl newResponse r))
   \<and> (plainText (RawQuery (URL r)) \<longrightarrow>
        sublist (RawQuery (URL r)) (respBody (rootHandler tbl newResponse r)))
   \<and> (CHR ''?'' \<notin> set s \<and> CHR ''#'' \<notin> set s \<and> RawQuery (URL r) = rawQueryOf (runGet_url s) \<longrightarrow>
        sublist ''param=123&param2=test'' (respBody (rootHandler tbl newResponse r)))
   \<and> (CHR ''?'' \<notin> set s \<and> CHR ''#'' \<notin> set s \<and> RawQuery (URL r) = rawQueryOf (runGetFullReq_url s) \<longrightarrow>
        sublist ''id=42&user=rvasily'' (respBody (rootHandler tbl newResponse r)))"
proof -
  have emb: "sublist ('', RawQuery:'' @ Quote tbl (RawQuery (URL r)) @ '', Fragment:'')
      (respBody (rootHandler tbl newResponse r))"
    by (rule root_body_query)
  have plain: "sublist (RawQuery (URL r)) (respBody (rootHandler tbl newResponse r))"
    if "plainText (RawQuery (URL r))"
  proof -
    have "Quote tbl (RawQuery (URL r)) = [dquote] @ RawQuery (URL r) @ [dquote]"
      using that by (simp add: Quote_def quoteLoop_plain)
    then have "sublist (RawQuery (URL r))
        ('', RawQuery:'' @ Quote tbl (RawQuery (URL r)) @ '', Fragment:'')"
      using sublist_inner [of "RawQuery (URL r)" "'', RawQuery:''" "[dquote]" "[dquote]" "'', Fragment:''"]
      by simp
    then show ?thesis
      using emb sublist_order.order_trans by blast
  qed
  have q1: "rawQueryOf (runGet_url s) = ''param=123&param2=test''"
    if "CHR ''?'' \<notin> set s" "CHR ''#'' \<notin> set s"
    using rawQueryOf_append [OF that, of "''param=123&param2=test''"]
    by (simp add: runGet_url_def)
  have q2: "rawQueryOf (runGetFullReq_url s) = ''id=42&user=rvasily''"
    if "CHR ''?'' \<notin> set s" "CHR ''#'' \<notin> set s"
    using rawQueryOf_append [OF that, of "''id=42&user=rvasily''"]
    by (simp add: runGetFullReq_url_def)
  have p1: "plainText ''param=123&param2=test''" and p2: "plainText ''id=42&user=rvasily''"
    by (simp_all add: plainText_def dquote_def backslash_def)
  show ?thesis
    using emb plain q1 q2 p1 p2 by metis
qed

theorem root_embeds_query_witness:
  "plainText (RawQuery (URL exampleGet))
   \<and> CHR ''?'' \<notin> set ''http://127.0.0.1:8080'' \<and> CHR ''#'' \<notin> set ''http://127.0.0.1:8080''
   \<and> RawQuery (URL exampleGet) = rawQueryOf (runGet_url ''http://127.0.0.1:8080'')
   \<and> sublist ''param=123&param2=test'' (respBody (rootHandler latin1Table newResponse exampleGet))
   \<and> RawQuery (URL exampleGetFullReq) = rawQueryOf (runGetFullReq_url ''http://127.0.0.1:8080'')
   \<and> sublist ''id=42&user=rvasily''
        (respBody (rootHandler latin1Table newResponse exampleGetFullReq))"
proof -
  have p: "plainText (RawQuery (URL exampleGet))"
    by (simp add: exampleGet_def exampleURL_def plainText_def dquote_def backslash_def)
  have s: "CHR ''?'' \<notin> set ''http://127.0.0.1:8080''" "CHR ''#'' \<notin> set ''http://127.0.0.1:8080''"
    by simp_all
  have q1: "RawQuery (URL exampleGet) = rawQueryOf (runGet_url ''http://127.0.0.1:8080'')"
    by (simp add: exampleGet_def exampleURL_def rawQueryOf_def runGet_url_def)
  have q2: "RawQuery (URL exampleGetFullReq) = rawQueryOf (runGetFullReq_url ''http://127.0.0.1:8080'')"
    by (simp add: exampleGetFullReq_def exampleGet_def exampleURL_def rawQueryOf_def
        runGetFullReq_url_def)
  show ?thesis
    using p s q1 q2
      root_embeds_query [of latin1Table exampleGet "''http://127.0.0.1:8080''"]
      root_embeds_query [of latin1Table exampleGetFullReq "''http://127.0.0.1:8080''"]
    by (simp del: set_simps list.set)
qed

text \<open>
  Claim C4 as stated has every query embedded as it was sent. A query with a double quote
  is written with the quote escaped, and the body does not hold the query itself.
\<close>

theorem quoted_query_counterexample:
  \<open>RawQuery (URL exampleQuoted) = ''q="a"''
   \<and> \<not> sublist ''q="a"'' (respBody (rootHandler latin1Table newResponse exampleQuoted))\<close>
proof -
  have \<open>respBody (rootHandler latin1Table newResponse exampleQuoted)
      = ''getHandler: incoming request\<newline>getHandler: r.Url &url.URL{Scheme:"", Opaque:"", User:(*url.Userinfo)(nil), Host:"", Path:"/", RawPath:"", ForceQuery:false, RawQuery:"q='' @ [backslash] @ ''"a'' @ [backslash] @ ''"", Fragment:""}\<newline>''\<close>
    by (simp add: rootHandler_new exampleQuoted_def exampleGet_def exampleURL_def syntax_eval)
  then show ?thesis
    by (simp add: exampleQuoted_def sublist_code)
qed

subsection \<open>The handlers read the URL and the body, and nothing else\<close>

lemma muxHandler_cong:
  assumes "Method r1 = Method r2" "URL r1 = URL r2"
  shows "muxHandler mux r1 = muxHandler mux r2"
  by (simp only: muxHandler_def assms)

lemma rootHandler_cong:
  assumes "URL r1 = URL r2"
  shows "rootHandler tbl w r1 = rootHandler tbl w r2"
  using assms by (simp add: rootHandler_def)

lemma rawBodyHandler_cong:
  assumes "Body r1 = Body r2"
  shows "rawBodyHandler w r1 = rawBodyHandler w r2"
  using assms by (simp add: rawBodyHandler_def)

lemma muxLookup_startServer:
  "muxLookup (startServer_mux tbl) p =
     (if p = ''/raw_body'' then Registered rawBodyHandler
      else if prefix ''/'' p then Registered (rootHandler tbl) else NotFound)"
  by (simp add: muxLookup_def match_raw_body match_root match_unrooted)

lemma serve_cong:
  assumes "Method r1 = Method r2" "URL r1 = URL r2" "Body r1 = Body r2"
    and "RequestURI r1 \<noteq> ''*''" "RequestURI r2 \<noteq> ''*''"
  shows "serve tbl r1 = serve tbl r2"
proof -
  have "Handled (h w r1) = Handled (h w r2)"
    if "h = rawBodyHandler \<or> h = rootHandler tbl" for h w
    using that assms rootHandler_cong rawBodyHandler_cong by metis
  then show ?thesis
    using assms muxHandler_cong [of r1 r2 "startServer_mux tbl"]
    by (auto simp: serve_def ServeHTTP_def muxHandler_def shouldRedirect_startServer
        muxLookup_startServer Let_def)
qed

lemma sameURL_no_userinfo:
  assumes "sameURL u1 u2" and "User u1 = 0"
  shows "u1 = u2"
proof -
  have "User u2 = 0"
    using assms by (simp add: sameURL_def)
  then have "u2\<lparr>User := 0\<rparr> = u2"
    by simp
  moreover have "u1\<lparr>User := 0\<rparr> = u1"
    using assms(2) by simp
  ultimately show ?thesis
    using assms(1) by (simp add: sameURL_def)
qed

lemma rootHandler_status: "status (rootHandler tbl w r) = status (Write w [])"
  by (simp add: rootHandler_def Write_def WriteHeader_def Let_def)

text \<open>
  Claim C10, as amended. Take two requests with the same method, the same URL (every
  field, user information absent in both or present in both) and the same body stream
  (its bytes and how reading it ends); their other fields may differ. The handler of
  \<^verbatim>\<open>/raw_body\<close> gives both the same response, and the handler of \<^verbatim>\<open>/\<close> gives both the same
  status, from any state of the response writer. When the URL has no user information,
  the handler of \<^verbatim>\<open>/\<close> gives both the same response, body included, and served through
  the multiplexer after any earlier requests the two get the same reply.
\<close>

theorem handlers_deterministic:
  assumes "Method r1 = Method r2" and "sameURL (URL r1) (URL r2)" and "Body r1 = Body r2"
  shows "rawBodyHandler w r1 = rawBodyHandler w r2
    \<and> status (rootHandler tbl w r1) = status (rootHandler tbl w r2)
    \<and> (User (URL r1) = 0 \<longrightarrow>
         rootHandler tbl w r1 = rootHandler tbl w r2
         \<and> (RequestURI r1 \<noteq> ''*'' \<and> RequestURI r2 \<noteq> ''*'' \<longrightarrow>
              last (serveAll tbl (earlier1 @ [r1])) = last (serveAll tbl (earlier2 @ [r2]))))"
proof -
  have raw: "rawBodyHandler w r1 = rawBodyHandler w r2"
    using assms(3) by (rule rawBodyHandler_cong)
  have st: "status (rootHandler tbl w r1) = status (rootHandler tbl w r2)"
    by (simp add: rootHandler_status)
  have "rootHandler tbl w r1 = rootHandler tbl w r2
      \<and> (RequestURI r1 \<noteq> ''*'' \<and> RequestURI r2 \<noteq> ''*'' \<longrightarrow>
           last (serveAll tbl (earlier1 @ [r1])) = last (serveAll tbl (earlier2 @ [r2])))"
    if "User (URL r1) = 0"
  proof -
    have u: "URL r1 = URL r2"
      using assms(2) that by (rule sameURL_no_userinfo)
    show ?thesis
      using rootHandler_cong [OF u, of tbl w] serve_cong [OF assms(1) u assms(3), of tbl]
      by (simp add: serveAll_def)
  qed
  with raw st show ?thesis
    by blast
qed

theorem handlers_deterministic_witness:
  "Method exampleGet = Method exampleGetOther
   \<and> sameURL (URL exampleGet) (URL exampleGetOther)
   \<and> Body exampleGet = Body exampleGetOther
   \<and> User (URL exampleGet) = 0
   \<and> Header exampleGet \<noteq> Header exampleGetOther
   \<and> RemoteAddr exampleGet \<noteq> RemoteAddr exampleGetOther
   \<and> rawBodyHandler newResponse exampleGet = rawBodyHandler newResponse exampleGetOther
   \<and> rootHandler latin1Table newResponse exampleGet
       = rootHandler latin1Table newResponse exampleGetOther
   \<and> RequestURI exampleGet \<noteq> ''*'' \<and> RequestURI exampleGetOther \<noteq> ''*''
   \<and> last (serveAll latin1Table ([examplePost, exampleUnclean] @ [exampleGet]))
       = last (serveAll latin1Table ([] @ [exampleGetOther]))"
proof -
  have m: "Method exampleGet = Method exampleGetOther"
    and u: "sameURL (URL exampleGet) (URL exampleGetOther)"
    and b: "Body exampleGet = Body exampleGetOther"
    by (simp_all add: exampleGetOther_def sameURL_def)
  have d: "User (URL exampleGet) = 0"
    "Header exampleGet \<noteq> Header exampleGetOther"
    "RemoteAddr exampleGet \<noteq> RemoteAddr exampleGetOther"
    "RequestURI exampleGet \<noteq> ''*''" "RequestURI exampleGetOther \<noteq> ''*''"
    by (simp_all add: exampleGetOther_def exampleGet_def exampleURL_def)
  show ?thesis
    using m u b d
      handlers_deterministic [OF m u b, of newResponse latin1Table
        "[examplePost, exampleUnclean]" "[]"]
    by simp
qed

text \<open>
  Claim C10 as stated has the same response for any two requests with the same method,
  URL and body. A request target with user information, sent twice, gives two URLs that
  differ only in where the server put the \<^verbatim>\<open>Userinfo\<close>; \<^verbatim>\<open>%#v\<close> prints that address, and
  the two bodies differ.
\<close>

theorem userinfo_address_counterexample:
  \<open>Method (exampleUserinfo 0xc000012120) = Method (exampleUserinfo 0xc0000121b0)
   \<and> sameURL (URL (exampleUserinfo 0xc000012120)) (URL (exampleUserinfo 0xc0000121b0))
   \<and> Body (exampleUserinfo 0xc000012120) = Body (exampleUserinfo 0xc0000121b0)
   \<and> respBody (rootHandler latin1Table newResponse (exampleUserinfo 0xc000012120))
      = ''getHandler: incoming request\<newline>getHandler: r.Url &url.URL{Scheme:"http", Opaque:"", User:(*url.Userinfo)(0xc000012120), Host:"127.0.0.1:8080", Path:"/", RawPath:"", ForceQuery:false, RawQuery:"param=123&param2=test", Fragment:""}\<newline>''
   \<and> respBody (rootHandler latin1Table newResponse (exampleUserinfo 0xc0000121b0))
      = ''getHandler: incoming request\<newline>getHandler: r.Url &url.URL{Scheme:"http", Opaque:"", User:(*url.Userinfo)(0xc0000121b0), Host:"127.0.0.1:8080", Path:"/", RawPath:"", ForceQuery:false, RawQuery:"param=123&param2=test", Fragment:""}\<newline>''
   \<and> respBody (rootHandler latin1Table newResponse (exampleUserinfo 0xc000012120))
      \<noteq> respBody (rootHandler latin1Table newResponse (exampleUserinfo 0xc0000121b0))\<close>
proof -
  have p1: "fmtPointer ''*url.Userinfo'' 0xc000012120 = ''(*url.Userinfo)(0xc000012120)''"
    and p2: "fmtPointer ''*url.Userinfo'' 0xc0000121b0 = ''(*url.Userinfo)(0xc0000121b0)''"
    by (simp_all add: fmtPointer_def fmt0x64_def hexDigits_def lowerhex_def upt_rec)
  have b1: \<open>respBody (rootHandler latin1Table newResponse (exampleUserinfo 0xc000012120))
      = ''getHandler: incoming request\<newline>getHandler: r.Url &url.URL{Scheme:"http", Opaque:"", User:(*url.Userinfo)(0xc000012120), Host:"127.0.0.1:8080", Path:"/", RawPath:"", ForceQuery:false, RawQuery:"param=123&param2=test", Fragment:""}\<newline>''\<close>
    by (simp add: rootHandler_new exampleUserinfo_def exampleGet_def exampleURL_def
        goSyntaxURL_def p1 fmtBool_def quote_eval)
  have b2: \<open>respBody (rootHandler latin1Table newResponse (exampleUserinfo 0xc0000121b0))
      = ''getHandler: incoming request\<newline>getHandler: r.Url &url.URL{Scheme:"http", Opaque:"", User:(*url.Userinfo)(0xc0000121b0), Host:"127.0.0.1:8080", Path:"/", RawPath:"", ForceQuery:false, RawQuery:"param=123&param2=test", Fragment:""}\<newline>''\<close>
    by (simp add: rootHandler_new exampleUserinfo_def exampleGet_def exampleURL_def
        goSyntaxURL_def p2 fmtBool_def quote_eval)
  have s: "sameURL (URL (exampleUserinfo 0xc000012120)) (URL (exampleUserinfo 0xc0000121b0))"
    by (simp add: sameURL_def exampleUserinfo_def)
  have ne: "respBody (rootHandler latin1Table newResponse (exampleUserinfo 0xc000012120))
      \<noteq> respBody (rootHandler latin1Table newResponse (exampleUserinfo 0xc0000121b0))"
    unfolding b1 b2 by simp
  show ?thesis
    using b1 b2 s ne by (simp add: exampleUserinfo_def)
qed

section \<open>Properties of the driver\<close>

lemmas world_eval = exampleWorld_def exampleServerURL_def httpGet_def NewRequest_def
  clientDo_def HeaderSet_def

lemma runGet_returns: "snd (runGet tbl wd s) = Returned"
  by (simp add: runGet_def Let_def split: sum.split prod.split)

lemma andThen_Returned: "snd a = Returned \<Longrightarrow> andThen a b = (fst a @ fst b, snd b)"
  by (simp add: andThen_def)

lemma andThen_Panicked: "snd a = Panicked \<Longrightarrow> andThen a b = a"
  by (simp add: andThen_def)

text \<open>
  Claim C6. For each of the three calls: when the HTTP call returns a transport error, the
  function prints \<^verbatim>\<open>error happend\<close>, the text of the error and a newline, and returns at
  once: its events are the call and the printed line, with no read of a body. The run of
  the three calls then goes on with the next call (after the third, \<^verbatim>\<open>main\<close> returns). The
  second and third calls reach their HTTP call when \<^verbatim>\<open>http.NewRequest\<close> has built the
  request.
\<close>

theorem transport_error_skips_call:
  "(httpGet wd (runGet_url s) = Inl err \<longrightarrow>
      runGet tbl wd s
        = ([HttpGet (runGet_url s), Stdout (''error happend '' @ err @ [newline])], Returned)
      \<and> fst (driverCalls tbl wd s)
        = [HttpGet (runGet_url s), Stdout (''error happend '' @ err @ [newline])]
            @ fst (andThen (runGetFullReq tbl wd s) (runTransportAndPost tbl wd s)))
   \<and> (NewRequest wd ''GET'' (runGetFullReq_url s) None = Inr req0
       \<and> clientDo wd DefaultClient (HeaderSet req0 ''User-Agent'' ''coursera/golang'') = Inl err \<longrightarrow>
      runGetFullReq tbl wd s
        = ([ClientDo DefaultClient (HeaderSet req0 ''User-Agent'' ''coursera/golang''),
            Stdout (''error happend '' @ err @ [newline])], Returned)
      \<and> fst (driverCalls tbl wd s)
        = fst (runGet tbl wd s)
            @ [ClientDo DefaultClient (HeaderSet req0 ''User-Agent'' ''coursera/golang''),
               Stdout (''error happend '' @ err @ [newline])]
            @ fst (runTransportAndPost tbl wd s))
   \<and> (NewRequest wd ''POST'' (runTransportAndPost_url s) (Some runTransportAndPost_data) = Inr req0
       \<and> clientDo wd runTransportAndPost_client
            (HeaderSet req0 ''Content-Type'' ''application/json'') = Inl err \<longrightarrow>
      runTransportAndPost tbl wd s
        = ([ClientDo runTransportAndPost_client
              (HeaderSet req0 ''Content-Type'' ''application/json''),
            Stdout (''error happend '' @ err @ [newline])], Returned))"
proof -
  have one: "runGet tbl wd s
        = ([HttpGet (runGet_url s), Stdout (''error happend '' @ err @ [newline])], Returned)"
    if "httpGet wd (runGet_url s) = Inl err"
    using that by (simp add: runGet_def errorLine_def)
  have two: "runGetFullReq tbl wd s
        = ([ClientDo DefaultClient (HeaderSet req0 ''User-Agent'' ''coursera/golang''),
            Stdout (''error happend '' @ err @ [newline])], Returned)"
    if "NewRequest wd ''GET'' (runGetFullReq_url s) None = Inr req0"
      "clientDo wd DefaultClient (HeaderSet req0 ''User-Agent'' ''coursera/golang'') = Inl err"
    using that by (simp add: runGetFullReq_def errorLine_def)
  have three: "runTransportAndPost tbl wd s
        = ([ClientDo runTransportAndPost_client
              (HeaderSet req0 ''Content-Type'' ''application/json''),
            Stdout (''error happend '' @ err @ [newline])], Returned)"
    if "NewRequest wd ''POST'' (runTransportAndPost_url s) (Some runTransportAndPost_data) = Inr req0"
      "clientDo wd runTransportAndPost_client
            (HeaderSet req0 ''Content-Type'' ''application/json'') = Inl err"
    using that by (simp add: runTransportAndPost_def errorLine_def)
  have calls: "fst (driverCalls tbl wd s)
      = fst (runGet tbl wd s) @ fst (andThen (runGetFullReq tbl wd s) (runTransportAndPost tbl wd s))"
    by (simp add: driverCalls_def andThen_Returned runGet_returns)
  have calls2: "fst (andThen (runGetFullReq tbl wd s) (runTransportAndPost tbl wd s))
      = fst (runGetFullReq tbl wd s) @ fst (runTransportAndPost tbl wd s)"
    if "snd (runGetFullReq tbl wd s) = Returned"
    using that by (simp add: andThen_Returned)
  show ?thesis
    using one two three calls calls2 by auto
qed


text \<open>With every connection refused, the three calls print three error lines, in order.\<close>

theorem transport_error_skips_call_witness:
  "httpGet exampleWorld (runGet_url exampleServerURL) = Inl exampleRefused
   \<and> NewRequest exampleWorld ''GET'' (runGetFullReq_url exampleServerURL) None
       = Inr \<lparr>ReqMethod = ''GET'', ReqURL = ''http://127.0.0.1:8080/?id=42&user=rvasily'',
              ReqHeader = [], ReqBody = None\<rparr>
   \<and> clientDo exampleWorld DefaultClient
        (HeaderSet \<lparr>ReqMethod = ''GET'', ReqURL = ''http://127.0.0.1:8080/?id=42&user=rvasily'',
              ReqHeader = [], ReqBody = None\<rparr> ''User-Agent'' ''coursera/golang'')
       = Inl exampleRefused
   \<and> NewRequest exampleWorld ''POST'' (runTransportAndPost_url exampleServerURL)
        (Some runTransportAndPost_data)
       = Inr \<lparr>ReqMethod = ''POST'', ReqURL = ''http://127.0.0.1:8080/raw_body'',
              ReqHeader = [], ReqBody = Some runTransportAndPost_data\<rparr>
   \<and> clientDo exampleWorld runTransportAndPost_client
        (HeaderSet \<lparr>ReqMethod = ''POST'', ReqURL = ''http://127.0.0.1:8080/raw_body'',
              ReqHeader = [], ReqBody = Some runTransportAndPost_data\<rparr>
           ''Content-Type'' ''application/json'')
       = Inl exampleRefused
   \<and> driverCalls latin1Table exampleWorld exampleServerURL
       = ([HttpGet ''http://127.0.0.1:8080/?param=123&param2=test'',
           Stdout (''error happend '' @ exampleRefused @ [newline]),
           ClientDo DefaultClient
             \<lparr>ReqMethod = ''GET'', ReqURL = ''http://127.0.0.1:8080/?id=42&user=rvasily'',
              ReqHeader = [(''User-Agent'', ''coursera/golang'')], ReqBody = None\<rparr>,
           Stdout (''error happend '' @ exampleRefused @ [newline]),
           ClientDo runTransportAndPost_client
             \<lparr>ReqMethod = ''POST'', ReqURL = ''http://127.0.0.1:8080/raw_body'',
              ReqHeader = [(''Content-Type'', ''application/json'')],
              ReqBody = Some runTransportAndPost_data\<rparr>,
           Stdout (''error happend '' @ exampleRefused @ [newline])], Returned)"
proof -
  let ?r2 = "\<lparr>ReqMethod = ''GET'', ReqURL = ''http://127.0.0.1:8080/?id=42&user=rvasily'',
              ReqHeader = [], ReqBody = None\<rparr>"
  let ?r3 = "\<lparr>ReqMethod = ''POST'', ReqURL = ''http://127.0.0.1:8080/raw_body'',
              ReqHeader = [], ReqBody = Some runTransportAndPost_data\<rparr>"
  have g: "httpGet exampleWorld (runGet_url exampleServerURL) = Inl exampleRefused"
    by (simp add: world_eval exampleRefused_def)
  have n2: "NewRequest exampleWorld ''GET'' (runGetFullReq_url exampleServerURL) None = Inr ?r2"
    by (simp add: world_eval runGetFullReq_url_def)
  have d2: "clientDo exampleWorld DefaultClient (HeaderSet ?r2 ''User-Agent'' ''coursera/golang'')
      = Inl exampleRefused"
    by (simp add: world_eval exampleRefused_def)
  have n3: "NewRequest exampleWorld ''POST'' (runTransportAndPost_url exampleServerURL)
        (Some runTransportAndPost_data) = Inr ?r3"
    by (simp add: world_eval runTransportAndPost_url_def)
  have d3: "clientDo exampleWorld runTransportAndPost_client
        (HeaderSet ?r3 ''Content-Type'' ''application/json'') = Inl exampleRefused"
    by (simp add: world_eval exampleRefused_def)
  note t1 = transport_error_skips_call
    [of exampleWorld exampleServerURL exampleRefused latin1Table ?r2]
  note t3 = transport_error_skips_call
    [of exampleWorld exampleServerURL exampleRefused latin1Table ?r3]
  have e1: "runGet latin1Table exampleWorld exampleServerURL
      = ([HttpGet (runGet_url exampleServerURL),
          Stdout (''error happend '' @ exampleRefused @ [newline])], Returned)"
    using t1 g by blast
  have e2: "runGetFullReq latin1Table exampleWorld exampleServerURL
      = ([ClientDo DefaultClient (HeaderSet ?r2 ''User-Agent'' ''coursera/golang''),
          Stdout (''error happend '' @ exampleRefused @ [newline])], Returned)"
    using t1 n2 d2 by blast
  have e3: "runTransportAndPost latin1Table exampleWorld exampleServerURL
      = ([ClientDo runTransportAndPost_client (HeaderSet ?r3 ''Content-Type'' ''application/json''),
          Stdout (''error happend '' @ exampleRefused @ [newline])], Returned)"
    using t3 n3 d3 by blast
  have "driverCalls latin1Table exampleWorld exampleServerURL
      = ([HttpGet (runGet_url exampleServerURL),
          Stdout (''error happend '' @ exampleRefused @ [newline]),
          ClientDo DefaultClient (HeaderSet ?r2 ''User-Agent'' ''coursera/golang''),
          Stdout (''error happend '' @ exampleRefused @ [newline]),
          ClientDo runTransportAndPost_client (HeaderSet ?r3 ''Content-Type'' ''application/json''),
          Stdout (''error happend '' @ exampleRefused @ [newline])], Returned)"
    by (simp add: driverCalls_def andThen_def e1 e2 e3)
  then show ?thesis
    using g n2 d2 n3 d3
    by (simp add: HeaderSet_def runGet_url_def exampleServerURL_def)
qed

text \<open>
  Claim C7, as amended. When reading a response body fails on the client side, in any of
  the three calls, the error is dropped: nothing of it is printed. The call prints its
  usual result line, with the bytes read before the failure in Go quotes, reads and
  closes the body, and returns; the outcome of the read (\<open>readErr\<close>) has no part in what
  is printed.
\<close>

theorem client_read_error_dropped:
  "(httpGet wd (runGet_url s) = Inr resp \<and> ReadAll resp = (respBytes, readErr) \<longrightarrow>
      runGet tbl wd s
        = ([HttpGet (runGet_url s), ReadBody,
            Stdout (''http.Get body '' @ Quote tbl respBytes @ [newline, newline, newline]),
            CloseBody], Returned))
   \<and> (NewRequest wd ''GET'' (runGetFullReq_url s) None = Inr req0
       \<and> clientDo wd DefaultClient (HeaderSet req0 ''User-Agent'' ''coursera/golang'') = Inr resp
       \<and> ReadAll resp = (respBytes, readErr) \<longrightarrow>
      runGetFullReq tbl wd s
        = ([ClientDo DefaultClient (HeaderSet req0 ''User-Agent'' ''coursera/golang''), ReadBody,
            Stdout (''testGetFullReq resp '' @ Quote tbl respBytes @ [newline, newline, newline]),
            CloseBody], Returned))
   \<and> (NewRequest wd ''POST'' (runTransportAndPost_url s) (Some runTransportAndPost_data) = Inr req0
       \<and> clientDo wd runTransportAndPost_client
            (HeaderSet req0 ''Content-Type'' ''application/json'') = Inr resp
       \<and> ReadAll resp = (respBytes, readErr) \<longrightarrow>
      runTransportAndPost tbl wd s
        = ([ClientDo runTransportAndPost_client
              (HeaderSet req0 ''Content-Type'' ''application/json''), ReadBody,
            Stdout (''runTransport '' @ Quote tbl respBytes @ [newline, newline, newline]),
            CloseBody], Returned))"
  by (simp add: runGet_def runGetFullReq_def runTransportAndPost_def bodyLine_def)

theorem client_read_error_dropped_witness:
  \<open>httpGet exampleBrokenBody (runGet_url exampleServerURL)
      = Inr (Reader ''getHandler: inc'' (Some ''unexpected EOF''))
   \<and> ReadAll (Reader ''getHandler: inc'' (Some ''unexpected EOF''))
      = (''getHandler: inc'', Some ''unexpected EOF'')
   \<and> runGet latin1Table exampleBrokenBody exampleServerURL
      = ([HttpGet (runGet_url exampleServerURL), ReadBody,
          Stdout (''http.Get body '' @ Quote latin1Table ''getHandler: inc''
                    @ [newline, newline, newline]),
          CloseBody], Returned)
   \<and> NewRequest exampleBrokenBody ''GET'' (runGetFullReq_url exampleServerURL) None
      = Inr \<lparr>ReqMethod = ''GET'', ReqURL = ''http://127.0.0.1:8080/?id=42&user=rvasily'',
             ReqHeader = [], ReqBody = None\<rparr>
   \<and> runGetFullReq latin1Table exampleBrokenBody exampleServerURL
      = ([ClientDo DefaultClient
            (HeaderSet \<lparr>ReqMethod = ''GET'', ReqURL = ''http://127.0.0.1:8080/?id=42&user=rvasily'',
               ReqHeader = [], ReqBody = None\<rparr> ''User-Agent'' ''coursera/golang''),
          ReadBody,
          Stdout (''testGetFullReq resp '' @ Quote latin1Table ''getHandler: inc''
                    @ [newline, newline, newline]),
          CloseBody], Returned)
   \<and> NewRequest exampleBrokenBody ''POST'' (runTransportAndPost_url exampleServerURL)
        (Some runTransportAndPost_data)
      = Inr \<lparr>ReqMethod = ''POST'', ReqURL = ''http://127.0.0.1:8080/raw_body'',
             ReqHeader = [], ReqBody = Some runTransportAndPost_data\<rparr>
   \<and> runTransportAndPost latin1Table exampleBrokenBody exampleServerURL
      = ([ClientDo runTransportAndPost_client
            (HeaderSet \<lparr>ReqMethod = ''POST'', ReqURL = ''http://127.0.0.1:8080/raw_body'',
               ReqHeader = [], ReqBody = Some runTransportAndPost_data\<rparr>
               ''Content-Type'' ''application/json''),
          ReadBody,
          Stdout (''runTransport '' @ Quote latin1Table ''getHandler: inc''
                    @ [newline, newline, newline]),
          CloseBody], Returned)\<close>
proof -
  let ?resp = "Reader ''getHandler: inc'' (Some ''unexpected EOF'')"
  let ?r2 = "\<lparr>ReqMethod = ''GET'', ReqURL = ''http://127.0.0.1:8080/?id=42&user=rvasily'',
              ReqHeader = [], ReqBody = None\<rparr>"
  let ?r3 = "\<lparr>ReqMethod = ''POST'', ReqURL = ''http://127.0.0.1:8080/raw_body'',
              ReqHeader = [], ReqBody = Some runTransportAndPost_data\<rparr>"
  have g: "httpGet exampleBrokenBody (runGet_url exampleServerURL) = Inr ?resp"
    by (simp add: world_eval exampleBrokenBody_def)
  have r: "ReadAll ?resp = (''getHandler: inc'', Some ''unexpected EOF'')"
    by simp
  have n2: "NewRequest exampleBrokenBody ''GET'' (runGetFullReq_url exampleServerURL) None = Inr ?r2"
    by (simp add: world_eval exampleBrokenBody_def runGetFullReq_url_def)
  have d2: "clientDo exampleBrokenBody DefaultClient
      (HeaderSet ?r2 ''User-Agent'' ''coursera/golang'') = Inr ?resp"
    by (simp add: world_eval exampleBrokenBody_def)
  have n3: "NewRequest exampleBrokenBody ''POST'' (runTransportAndPost_url exampleServerURL)
        (Some runTransportAndPost_data) = Inr ?r3"
    by (simp add: world_eval exampleBrokenBody_def runTransportAndPost_url_def)
  have d3: "clientDo exampleBrokenBody runTransportAndPost_client
        (HeaderSet ?r3 ''Content-Type'' ''application/json'') = Inr ?resp"
    by (simp add: world_eval exampleBrokenBody_def)
  note t2 = client_read_error_dropped
    [of exampleBrokenBody exampleServerURL ?resp "''getHandler: inc''" "Some ''unexpected EOF''"
      latin1Table ?r2]
  note t3 = client_read_error_dropped
    [of exampleBrokenBody exampleServerURL ?resp "''getHandler: inc''" "Some ''unexpected EOF''"
      latin1Table ?r3]
  show ?thesis
    using g r n2 d2 n3 d3 t2 t3 by blast
qed

text \<open>
  Claim C7 as stated has the error of the read printed like a transport error. With a
  response that breaks off with \<^verbatim>\<open>unexpected EOF\<close>, the first call prints the partial body
  as a result and no error line.
\<close>

theorem client_read_error_counterexample:
  \<open>httpGet exampleBrokenBody (runGet_url exampleServerURL)
      = Inr (Reader ''getHandler: inc'' (Some ''unexpected EOF''))
   \<and> runGet latin1Table exampleBrokenBody exampleServerURL
      = ([HttpGet ''http://127.0.0.1:8080/?param=123&param2=test'', ReadBody,
          Stdout ''http.Get body "getHandler: inc"\<newline>\<newline>\<newline>'', CloseBody], Returned)
   \<and> Stdout (errorLine ''unexpected EOF'')
        \<notin> set (fst (runGet latin1Table exampleBrokenBody exampleServerURL))\<close>
  by (simp add: runGet_def runGet_url_def bodyLine_def errorLine_def world_eval exampleBrokenBody_def quote_eval)


text \<open>
  Claim C9. When the request can be built, the third call makes one HTTP call and prints
  one line. The call is made by a client with a timeout of 10 seconds, whose transport
  dials with a timeout of 30 seconds and a keep-alive of 30 seconds and keeps at most 100
  idle connections; the request is a POST of \<^verbatim>\<open>{serverURL}/raw_body\<close> with the header
  \<^verbatim>\<open>Content-Type: application/json\<close> and the fixed body. A duration counts nanoseconds.
\<close>

theorem post_call_configuration:
  assumes "urlParseError wd (s @ ''/raw_body'') = None"
  shows \<open>hd (fst (runTransportAndPost tbl wd s))
      = ClientDo
          \<lparr>Client_Transport = Some
             \<lparr>Transport_DialContext = \<lparr>Dialer_Timeout = 30 * Second, Dialer_KeepAlive = 30 * Second\<rparr>,
              Transport_MaxIdleConns = 100\<rparr>,
           Client_Timeout = 10 * Second\<rparr>
          \<lparr>ReqMethod = ''POST'', ReqURL = s @ ''/raw_body'',
           ReqHeader = [(''Content-Type'', ''application/json'')],
           ReqBody = Some ''{"id": 42, "user": "rvasily"}''\<rparr>
    \<and> marks (fst (runTransportAndPost tbl wd s)) = [TransportPost, Printed]
    \<and> Second = 1000000000\<close>
proof -
  let ?req = \<open>\<lparr>ReqMethod = ''POST'', ReqURL = s @ ''/raw_body'',
           ReqHeader = [(''Content-Type'', ''application/json'')],
           ReqBody = Some ''{"id": 42, "user": "rvasily"}''\<rparr>\<close>
  have n: "NewRequest wd ''POST'' (runTransportAndPost_url s) (Some runTransportAndPost_data)
      = Inr (?req\<lparr>ReqHeader := []\<rparr>)"
    using assms
    by (simp add: NewRequest_def runTransportAndPost_url_def runTransportAndPost_data_def)
  have h: "HeaderSet (?req\<lparr>ReqHeader := []\<rparr>) ''Content-Type'' ''application/json'' = ?req"
    by (simp add: HeaderSet_def)
  have c: "runTransportAndPost_client
      = \<lparr>Client_Transport = Some
             \<lparr>Transport_DialContext = \<lparr>Dialer_Timeout = 30 * Second, Dialer_KeepAlive = 30 * Second\<rparr>,
              Transport_MaxIdleConns = 100\<rparr>,
           Client_Timeout = 10 * Second\<rparr>"
    by (simp add: runTransportAndPost_client_def runTransportAndPost_transport_def)
  show ?thesis
  proof (cases "clientDo wd runTransportAndPost_client ?req")
    case (Inl err)
    then show ?thesis
      using n h c
      by (simp add: runTransportAndPost_def marks_def List.map_filter_simps Second_def)
  next
    case (Inr resp)
    then show ?thesis
      using n h c
      by (simp add: runTransportAndPost_def marks_def List.map_filter_simps Second_def
          split: prod.split)
  qed
qed

theorem post_call_configuration_witness:
  \<open>urlParseError exampleWorld (exampleServerURL @ ''/raw_body'') = None
   \<and> hd (fst (runTransportAndPost latin1Table exampleWorld exampleServerURL))
      = ClientDo
          \<lparr>Client_Transport = Some
             \<lparr>Transport_DialContext = \<lparr>Dialer_Timeout = 30000000000, Dialer_KeepAlive = 30000000000\<rparr>,
              Transport_MaxIdleConns = 100\<rparr>,
           Client_Timeout = 10000000000\<rparr>
          \<lparr>ReqMethod = ''POST'', ReqURL = ''http://127.0.0.1:8080/raw_body'',
           ReqHeader = [(''Content-Type'', ''application/json'')],
           ReqBody = Some ''{"id": 42, "user": "rvasily"}''\<rparr>
   \<and> marks (fst (runTransportAndPost latin1Table exampleWorld exampleServerURL))
      = [TransportPost, Printed]\<close>
proof -
  have p: "urlParseError exampleWorld (exampleServerURL @ ''/raw_body'') = None"
    by (simp add: exampleWorld_def)
  show ?thesis
    using p post_call_configuration [OF p, of latin1Table]
    by (simp add: Second_def exampleServerURL_def)
qed

section \<open>Properties of \<^verbatim>\<open>main\<close>\<close>

subsection \<open>The marks of the driver's events\<close>

lemma marks_append: "marks (xs @ ys) = marks xs @ marks ys"
  by (simp add: marks_def List.map_filter_def)

lemma marks_Nil: "marks [] = []"
  by (simp add: marks_def)

lemma marks_Cons: "marks (e # es) = (case markOf e of None \<Rightarrow> marks es | Some m \<Rightarrow> m # marks es)"
  unfolding marks_def by simp

lemma marks_runGet: "marks (fst (runGet tbl wd s)) = [SimpleGet, Printed]"
  by (simp add: runGet_def Let_def marks_Cons marks_Nil split: sum.split prod.split)

lemma runGetFullReq_cases:
  "(runGetFullReq tbl wd s = ([], Panicked) \<and> urlParseError wd (runGetFullReq_url s) \<noteq> None)
   \<or> (snd (runGetFullReq tbl wd s) = Returned
       \<and> marks (fst (runGetFullReq tbl wd s)) = [HeaderGet, Printed]
       \<and> urlParseError wd (runGetFullReq_url s) = None)"
  by (auto simp: runGetFullReq_def NewRequest_def HeaderSet_def Let_def marks_Cons marks_Nil
      split: sum.split prod.split option.split)

lemma runTransportAndPost_cases:
  "(runTransportAndPost tbl wd s = ([], Panicked)
       \<and> urlParseError wd (runTransportAndPost_url s) \<noteq> None)
   \<or> (snd (runTransportAndPost tbl wd s) = Returned
       \<and> marks (fst (runTransportAndPost tbl wd s)) = [TransportPost, Printed]
       \<and> urlParseError wd (runTransportAndPost_url s) = None)"
  by (auto simp: runTransportAndPost_def NewRequest_def HeaderSet_def Let_def marks_Cons marks_Nil
      split: sum.split prod.split option.split)

lemma marks_driverCalls:
  "marks (fst (driverCalls tbl wd s)) \<in>
     {[SimpleGet, Printed], [SimpleGet, Printed, HeaderGet, Printed],
      [SimpleGet, Printed, HeaderGet, Printed, TransportPost, Printed]}"
  using runGetFullReq_cases [of tbl wd s] runTransportAndPost_cases [of tbl wd s]
  by (auto simp: driverCalls_def andThen_def runGet_returns marks_append marks_runGet marks_Nil
      split: outcome.split)

lemma driverCalls_complete:
  assumes "urlParseError wd (runGetFullReq_url s) = None"
    and "urlParseError wd (runTransportAndPost_url s) = None"
  shows "snd (driverCalls tbl wd s) = Returned"
    and "marks (fst (driverCalls tbl wd s))
      = [SimpleGet, Printed, HeaderGet, Printed, TransportPost, Printed]"
  using assms runGetFullReq_cases [of tbl wd s] runTransportAndPost_cases [of tbl wd s]
  by (auto simp: driverCalls_def andThen_def runGet_returns marks_append marks_runGet)

lemma mainAfterRecv_eq:
  "mainAfterRecv tbl wd a
     = (Stdout (''Server started at: '' @ ''http://'' @ a @ [newline])
          # fst (driverCalls tbl wd (''http://'' @ a)),
        snd (driverCalls tbl wd (''http://'' @ a)))"
  by (simp add: mainAfterRecv_def andThen_def Let_def)

lemma marks_mainAfterRecv: "prefix (marks (Handoff a # fst (mainAfterRecv tbl wd a))) mainOrder"
  using marks_driverCalls [of tbl wd "''http://'' @ a"]
  by (auto simp: mainAfterRecv_eq marks_Cons mainOrder_def)

lemma mainAfterRecv_complete:
  assumes "urlParseError wd (runGetFullReq_url (''http://'' @ a)) = None"
    and "urlParseError wd (runTransportAndPost_url (''http://'' @ a)) = None"
  shows "snd (mainAfterRecv tbl wd a) = Returned"
    and "marks (Handoff a # fst (mainAfterRecv tbl wd a)) = mainOrder"
  using driverCalls_complete [OF assms, of tbl]
  by (simp_all add: mainAfterRecv_eq marks_Cons mainOrder_def)

lemma marks_take_prefix: "prefix (marks (take k es)) (marks es)"
proof -
  have "marks es = marks (take k es) @ marks (drop k es)"
    using marks_append [of "take k es" "drop k es"] by simp
  then show ?thesis
    by (simp add: prefix_def)
qed

subsection \<open>The configurations a run passes through\<close>

lemma drop_Cons_take:
  assumes "drop k xs = e # es"
  shows "take (Suc k) xs = take k xs @ [e]" and "drop (Suc k) xs = es"
proof -
  have k: "k < length xs"
    using assms by (cases "k < length xs") auto
  then have "xs ! k = e"
    using assms by (metis nth_via_drop)
  then show "take (Suc k) xs = take k xs @ [e]"
    using k by (simp add: take_Suc_conv_app_nth)
  show "drop (Suc k) xs = es"
    using assms by (metis drop_Suc tl_drop list.sel(3))
qed

lemma reachable_shape:
  assumes "reachable tbl wd c"
  shows "c = initial
    \<or> c = \<lparr>srvG = SrvListening, mainG = MainReceiving, trace = [], proc = Running\<rparr>
    \<or> (\<exists>a. netListen wd = Inr a
          \<and> c = \<lparr>srvG = SrvSending a, mainG = MainReceiving, trace = [], proc = Running\<rparr>)
    \<or> (\<exists>err. netListen wd = Inl err
          \<and> c = \<lparr>srvG = SrvListening, mainG = MainReceiving, trace = [], proc = Crashed\<rparr>)
    \<or> (\<exists>a k. netListen wd = Inr a
          \<and> c = \<lparr>srvG = SrvServing,
                 mainG = MainRunning (drop k (fst (mainAfterRecv tbl wd a))) (snd (mainAfterRecv tbl wd a)),
                 trace = Handoff a # take k (fst (mainAfterRecv tbl wd a)), proc = Running\<rparr>)
    \<or> (\<exists>a. netListen wd = Inr a \<and> snd (mainAfterRecv tbl wd a) = Returned
          \<and> c = \<lparr>srvG = SrvServing, mainG = MainReturned,
                 trace = Handoff a # fst (mainAfterRecv tbl wd a), proc = Exited\<rparr>)
    \<or> (\<exists>a. netListen wd = Inr a \<and> snd (mainAfterRecv tbl wd a) = Panicked
          \<and> c = \<lparr>srvG = SrvServing, mainG = MainRunning [] Panicked,
                 trace = Handoff a # fst (mainAfterRecv tbl wd a), proc = Crashed\<rparr>)"
    (is "?P c")
  using assms unfolding reachable_def
proof (induction rule: rtranclp_induct)
  case base
  show ?case by simp
next
  case (step c c')
  from step.hyps(2) show ?case
  proof (cases rule: step.cases)
    case go
    with step.IH show ?thesis
      by (auto simp: initial_def)
  next
    case (listen_ok a)
    with step.IH show ?thesis
      by (auto simp: initial_def)
  next
    case (listen_failed err)
    with step.IH show ?thesis
      by (auto simp: initial_def)
  next
    case (handoff a)
    with step.IH have "netListen wd = Inr a"
      and "c = \<lparr>srvG = SrvSending a, mainG = MainReceiving, trace = [], proc = Running\<rparr>"
      by (auto simp: initial_def)
    with handoff have "netListen wd = Inr a
          \<and> c' = \<lparr>srvG = SrvServing,
                 mainG = MainRunning (drop 0 (fst (mainAfterRecv tbl wd a))) (snd (mainAfterRecv tbl wd a)),
                 trace = Handoff a # take 0 (fst (mainAfterRecv tbl wd a)), proc = Running\<rparr>"
      by simp
    then show ?thesis by blast
  next
    case (main_event e es out)
    with step.IH obtain a k where a: "netListen wd = Inr a"
      and c: "c = \<lparr>srvG = SrvServing,
                 mainG = MainRunning (drop k (fst (mainAfterRecv tbl wd a))) (snd (mainAfterRecv tbl wd a)),
                 trace = Handoff a # take k (fst (mainAfterRecv tbl wd a)), proc = Running\<rparr>"
      by (auto simp: initial_def)
    from c main_event have d: "drop k (fst (mainAfterRecv tbl wd a)) = e # es"
      and o: "out = snd (mainAfterRecv tbl wd a)"
      by simp_all
    from c main_event o drop_Cons_take [OF d]
    have "c' = \<lparr>srvG = SrvServing,
                 mainG = MainRunning (drop (Suc k) (fst (mainAfterRecv tbl wd a))) (snd (mainAfterRecv tbl wd a)),
                 trace = Handoff a # take (Suc k) (fst (mainAfterRecv tbl wd a)), proc = Running\<rparr>"
      by simp
    with a show ?thesis by blast
  next
    case main_returned
    with step.IH obtain a k where a: "netListen wd = Inr a"
      and c: "c = \<lparr>srvG = SrvServing,
                 mainG = MainRunning (drop k (fst (mainAfterRecv tbl wd a))) (snd (mainAfterRecv tbl wd a)),
                 trace = Handoff a # take k (fst (mainAfterRecv tbl wd a)), proc = Running\<rparr>"
      by (auto simp: initial_def)
    from c main_returned have d: "drop k (fst (mainAfterRecv tbl wd a)) = []"
      and o: "snd (mainAfterRecv tbl wd a) = Returned"
      by simp_all
    from c main_returned d
    have "c' = \<lparr>srvG = SrvServing, mainG = MainReturned,
                 trace = Handoff a # fst (mainAfterRecv tbl wd a), proc = Exited\<rparr>"
      by simp
    with a o show ?thesis by blast
  next
    case main_panicked
    with step.IH obtain a k where a: "netListen wd = Inr a"
      and c: "c = \<lparr>srvG = SrvServing,
                 mainG = MainRunning (drop k (fst (mainAfterRecv tbl wd a))) (snd (mainAfterRecv tbl wd a)),
                 trace = Handoff a # take k (fst (mainAfterRecv tbl wd a)), proc = Running\<rparr>"
      by (auto simp: initial_def)
    from c main_panicked have d: "drop k (fst (mainAfterRecv tbl wd a)) = []"
      and o: "snd (mainAfterRecv tbl wd a) = Panicked"
      by simp_all
    from c main_panicked d
    have "c' = \<lparr>srvG = SrvServing, mainG = MainRunning [] Panicked,
                 trace = Handoff a # fst (mainAfterRecv tbl wd a), proc = Crashed\<rparr>"
      by simp
    with a o show ?thesis by blast
  qed
qed

subsection \<open>Runs that reach the end\<close>

lemma run_events:
  "rtranclp (step tbl wd)
     \<lparr>srvG = sv, mainG = MainRunning es out, trace = t, proc = Running\<rparr>
     \<lparr>srvG = sv, mainG = MainRunning [] out, trace = t @ es, proc = Running\<rparr>"
proof (induction es arbitrary: t)
  case Nil
  show ?case by simp
next
  case (Cons e es)
  have "step tbl wd
     \<lparr>srvG = sv, mainG = MainRunning (e # es) out, trace = t, proc = Running\<rparr>
     \<lparr>srvG = sv, mainG = MainRunning es out, trace = t @ [e], proc = Running\<rparr>"
    using main_event [of "\<lparr>srvG = sv, mainG = MainRunning (e # es) out, trace = t, proc = Running\<rparr>"
        e es out tbl wd]
    by simp
  then show ?case
    using Cons.IH [of "t @ [e]"] by (simp add: converse_rtranclp_into_rtranclp)
qed

lemma run_to_exit:
  assumes "out = Returned"
  shows "rtranclp (step tbl wd)
     \<lparr>srvG = sv, mainG = MainRunning es out, trace = t, proc = Running\<rparr>
     \<lparr>srvG = sv, mainG = MainReturned, trace = t @ es, proc = Exited\<rparr>"
proof -
  have "step tbl wd
     \<lparr>srvG = sv, mainG = MainRunning [] out, trace = t @ es, proc = Running\<rparr>
     \<lparr>srvG = sv, mainG = MainReturned, trace = t @ es, proc = Exited\<rparr>"
    using assms
      main_returned [of "\<lparr>srvG = sv, mainG = MainRunning [] out, trace = t @ es, proc = Running\<rparr>"
        tbl wd]
    by simp
  then show ?thesis
    using run_events [of tbl wd sv es out t] by (simp add: rtranclp.rtrancl_into_rtrancl)
qed

lemma start_to_running:
  assumes "netListen wd = Inr a"
  shows "step tbl wd initial
      \<lparr>srvG = SrvListening, mainG = MainReceiving, trace = [], proc = Running\<rparr>"
    and "step tbl wd
      \<lparr>srvG = SrvListening, mainG = MainReceiving, trace = [], proc = Running\<rparr>
      \<lparr>srvG = SrvSending a, mainG = MainReceiving, trace = [], proc = Running\<rparr>"
    and "step tbl wd
      \<lparr>srvG = SrvSending a, mainG = MainReceiving, trace = [], proc = Running\<rparr>
      \<lparr>srvG = SrvServing,
       mainG = MainRunning (fst (mainAfterRecv tbl wd a)) (snd (mainAfterRecv tbl wd a)),
       trace = [Handoff a], proc = Running\<rparr>"
proof -
  show "step tbl wd initial
      \<lparr>srvG = SrvListening, mainG = MainReceiving, trace = [], proc = Running\<rparr>"
    using go [of initial tbl wd] by (simp add: initial_def)
  show "step tbl wd
      \<lparr>srvG = SrvListening, mainG = MainReceiving, trace = [], proc = Running\<rparr>
      \<lparr>srvG = SrvSending a, mainG = MainReceiving, trace = [], proc = Running\<rparr>"
    using assms
      listen_ok [of "\<lparr>srvG = SrvListening, mainG = MainReceiving, trace = [], proc = Running\<rparr>"
        wd a tbl]
    by simp
  show "step tbl wd
      \<lparr>srvG = SrvSending a, mainG = MainReceiving, trace = [], proc = Running\<rparr>
      \<lparr>srvG = SrvServing,
       mainG = MainRunning (fst (mainAfterRecv tbl wd a)) (snd (mainAfterRecv tbl wd a)),
       trace = [Handoff a], proc = Running\<rparr>"
    using handoff [of "\<lparr>srvG = SrvSending a, mainG = MainReceiving, trace = [], proc = Running\<rparr>"
        a tbl wd]
    by simp
qed

lemma crash_without_listener:
  assumes "netListen wd = Inl err"
  shows "reachable tbl wd
    \<lparr>srvG = SrvListening, mainG = MainReceiving, trace = [], proc = Crashed\<rparr>"
proof -
  have "step tbl wd initial
      \<lparr>srvG = SrvListening, mainG = MainReceiving, trace = [], proc = Running\<rparr>"
    using go [of initial tbl wd] by (simp add: initial_def)
  moreover have "step tbl wd
      \<lparr>srvG = SrvListening, mainG = MainReceiving, trace = [], proc = Running\<rparr>
      \<lparr>srvG = SrvListening, mainG = MainReceiving, trace = [], proc = Crashed\<rparr>"
    using assms
      listen_failed [of "\<lparr>srvG = SrvListening, mainG = MainReceiving, trace = [], proc = Running\<rparr>"
        wd err tbl]
    by simp
  ultimately show ?thesis
    unfolding reachable_def by (meson rtranclp.rtrancl_into_rtrancl rtranclp.rtrancl_refl)
qed

lemma exit_from_reachable:
  assumes a: "netListen wd = Inr a" and r: "snd (mainAfterRecv tbl wd a) = Returned"
    and c: "reachable tbl wd c"
  shows "proc c \<noteq> Crashed
    \<and> rtranclp (step tbl wd) c
        \<lparr>srvG = SrvServing, mainG = MainReturned,
         trace = Handoff a # fst (mainAfterRecv tbl wd a), proc = Exited\<rparr>"
    (is "_ \<and> rtranclp _ c ?final")
proof -
  let ?evs = "fst (mainAfterRecv tbl wd a)"
  let ?out = "snd (mainAfterRecv tbl wd a)"
  let ?c1 = "\<lparr>srvG = SrvListening, mainG = MainReceiving, trace = [], proc = Running\<rparr>"
  let ?c2 = "\<lparr>srvG = SrvSending a, mainG = MainReceiving, trace = [], proc = Running\<rparr>"
  let ?c3 = "\<lparr>srvG = SrvServing, mainG = MainRunning ?evs ?out, trace = [Handoff a], proc = Running\<rparr>"
  have s3: "rtranclp (step tbl wd) ?c3 ?final"
    using run_to_exit [OF r, of tbl wd SrvServing ?evs "[Handoff a]"] by simp
  have s2: "rtranclp (step tbl wd) ?c2 ?final"
    using start_to_running(3) [OF a, of tbl] s3 by (rule converse_rtranclp_into_rtranclp)
  have s1: "rtranclp (step tbl wd) ?c1 ?final"
    using start_to_running(2) [OF a, of tbl] s2 by (rule converse_rtranclp_into_rtranclp)
  have s0: "rtranclp (step tbl wd) initial ?final"
    using start_to_running(1) [OF a, of tbl] s1 by (rule converse_rtranclp_into_rtranclp)
  have sk: "rtranclp (step tbl wd)
      \<lparr>srvG = SrvServing, mainG = MainRunning (drop k ?evs) ?out,
       trace = Handoff a # take k ?evs, proc = Running\<rparr> ?final" for k
    using run_to_exit [OF r, of tbl wd SrvServing "drop k ?evs" "Handoff a # take k ?evs"]
    by simp
  from reachable_shape [OF c] a r s0 s1 s2 sk show ?thesis
    by (elim disjE exE conjE) (auto simp: initial_def)
qed

subsection \<open>The order of \<^verbatim>\<open>main\<close>\<close>

text \<open>
  Claim C5. In every execution, at every moment, the marks of what has happened so far
  are an initial part of: the address handed over on the channel, a line printed (the
  start message), the simple GET, a line printed, the GET with the header, a line printed,
  the POST, a line printed. So the server has reported its address, and \<^verbatim>\<open>main\<close> has
  received it, before any call is attempted; the calls come in this order; and the result
  of a call (its body or its error) is printed before the next call starts.
\<close>

theorem main_order:
  assumes "reachable tbl wd c"
  shows "prefix (marks (trace c)) mainOrder"
proof -
  have run: "prefix (marks (Handoff a # take k (fst (mainAfterRecv tbl wd a)))) mainOrder" for a k
  proof -
    have "prefix (marks (take k (fst (mainAfterRecv tbl wd a)))) (marks (fst (mainAfterRecv tbl wd a)))"
      by (rule marks_take_prefix)
    then have "prefix (marks (Handoff a # take k (fst (mainAfterRecv tbl wd a))))
        (marks (Handoff a # fst (mainAfterRecv tbl wd a)))"
      by (simp add: marks_Cons)
    then show ?thesis
      using marks_mainAfterRecv [of a tbl wd] prefix_order.order_trans by blast
  qed
  from reachable_shape [OF assms] show ?thesis
  proof (elim disjE exE conjE)
    fix a k
    assume "c = \<lparr>srvG = SrvServing,
        mainG = MainRunning (drop k (fst (mainAfterRecv tbl wd a))) (snd (mainAfterRecv tbl wd a)),
        trace = Handoff a # take k (fst (mainAfterRecv tbl wd a)), proc = Running\<rparr>"
    then show ?thesis using run [of a k] by simp
  next
    fix a
    assume "c = \<lparr>srvG = SrvServing, mainG = MainReturned,
        trace = Handoff a # fst (mainAfterRecv tbl wd a), proc = Exited\<rparr>"
    then show ?thesis using marks_mainAfterRecv [of a tbl wd] by simp
  next
    fix a
    assume "c = \<lparr>srvG = SrvServing, mainG = MainRunning [] Panicked,
        trace = Handoff a # fst (mainAfterRecv tbl wd a), proc = Crashed\<rparr>"
    then show ?thesis using marks_mainAfterRecv [of a tbl wd] by simp
  qed (simp_all add: initial_def marks_Nil)
qed

text \<open>A run to the end, with every connection refused.\<close>

lemma reachable_initial: "reachable tbl wd initial"
  by (simp add: reachable_def)

lemma exampleWorld_main:
  "mainAfterRecv latin1Table exampleWorld ''127.0.0.1:8080''
     = ([Stdout (''Server started at: http://127.0.0.1:8080'' @ [newline]),
         HttpGet ''http://127.0.0.1:8080/?param=123&param2=test'',
         Stdout (''error happend '' @ exampleRefused @ [newline]),
         ClientDo DefaultClient
           \<lparr>ReqMethod = ''GET'', ReqURL = ''http://127.0.0.1:8080/?id=42&user=rvasily'',
            ReqHeader = [(''User-Agent'', ''coursera/golang'')], ReqBody = None\<rparr>,
         Stdout (''error happend '' @ exampleRefused @ [newline]),
         ClientDo runTransportAndPost_client
           \<lparr>ReqMethod = ''POST'', ReqURL = ''http://127.0.0.1:8080/raw_body'',
            ReqHeader = [(''Content-Type'', ''application/json'')],
            ReqBody = Some runTransportAndPost_data\<rparr>,
         Stdout (''error happend '' @ exampleRefused @ [newline])], Returned)"
  by (simp add: mainAfterRecv_eq driverCalls_def andThen_def runGet_def runGetFullReq_def
      runTransportAndPost_def runGet_url_def runGetFullReq_url_def runTransportAndPost_url_def
      errorLine_def exampleRefused_def world_eval)

lemma exampleFinal_reachable: "reachable latin1Table exampleWorld exampleFinal"
proof -
  have a: "netListen exampleWorld = Inr ''127.0.0.1:8080''"
    by (simp add: exampleWorld_def)
  have r: "snd (mainAfterRecv latin1Table exampleWorld ''127.0.0.1:8080'') = Returned"
    by (simp add: exampleWorld_main)
  show ?thesis
    using exit_from_reachable [OF a r reachable_initial]
    by (simp add: reachable_def exampleFinal_def exampleWorld_main)
qed

theorem main_order_witness:
  "reachable latin1Table exampleWorld exampleFinal
   \<and> marks (trace exampleFinal)
       = [AddrReported, Printed, SimpleGet, Printed, HeaderGet, Printed, TransportPost, Printed]
   \<and> prefix (marks (trace exampleFinal)) mainOrder"
  using exampleFinal_reachable main_order [OF exampleFinal_reachable]
  by (simp add: exampleFinal_def marks_Cons marks_Nil)

subsection \<open>Which errors end the process\<close>

text \<open>
  Claim C8, as amended. When the listener binds and the two requests that \<^verbatim>\<open>main\<close> builds
  itself can be built, no error is fatal to the process, however the three HTTP calls and
  the reads of their bodies end: no configuration of the run is a crashed one, and from
  each of them the run goes on to the return of \<^verbatim>\<open>main\<close>, with the address reported,
  all three calls attempted and a line printed after each.
\<close>

theorem handled_errors_not_fatal:
  assumes "netListen wd = Inr a"
    and "urlParseError wd (runGetFullReq_url (''http://'' @ a)) = None"
    and "urlParseError wd (runTransportAndPost_url (''http://'' @ a)) = None"
    and "reachable tbl wd c"
  shows "proc c \<noteq> Crashed
    \<and> rtranclp (step tbl wd) c
        \<lparr>srvG = SrvServing, mainG = MainReturned,
         trace = Handoff a # fst (mainAfterRecv tbl wd a), proc = Exited\<rparr>
    \<and> marks (Handoff a # fst (mainAfterRecv tbl wd a)) = mainOrder"
  using exit_from_reachable [OF assms(1) mainAfterRecv_complete(1) [OF assms(2,3)] assms(4)]
    mainAfterRecv_complete(2) [OF assms(2,3), of tbl]
  by simp

theorem handled_errors_not_fatal_witness:
  "netListen exampleWorld = Inr ''127.0.0.1:8080''
   \<and> urlParseError exampleWorld (runGetFullReq_url (''http://'' @ ''127.0.0.1:8080'')) = None
   \<and> urlParseError exampleWorld (runTransportAndPost_url (''http://'' @ ''127.0.0.1:8080'')) = None
   \<and> reachable latin1Table exampleWorld initial
   \<and> proc initial \<noteq> Crashed
   \<and> rtranclp (step latin1Table exampleWorld) initial exampleFinal
   \<and> marks (trace exampleFinal) = mainOrder"
proof -
  have a: "netListen exampleWorld = Inr ''127.0.0.1:8080''"
    and p2: "urlParseError exampleWorld (runGetFullReq_url (''http://'' @ ''127.0.0.1:8080'')) = None"
    and p3: "urlParseError exampleWorld (runTransportAndPost_url (''http://'' @ ''127.0.0.1:8080'')) = None"
    by (simp_all add: exampleWorld_def)
  show ?thesis
    using a p2 p3 reachable_initial [of latin1Table exampleWorld]
      handled_errors_not_fatal [OF a p2 p3 reachable_initial, of latin1Table]
    by (simp add: exampleFinal_def exampleWorld_main)
qed

text \<open>
  Claim C8 as stated includes a failure to bind the listening socket. The error of
  \<^verbatim>\<open>net.Listen\<close> is dropped and the \<^verbatim>\<open>nil\<close> listener is used: the process ends in a panic
  with nothing printed and no call attempted.
\<close>

theorem bind_failure_counterexample:
  "netListen exampleNoListener = Inl ''listen tcp :0: socket: too many open files''
   \<and> reachable latin1Table exampleNoListener
       \<lparr>srvG = SrvListening, mainG = MainReceiving, trace = [], proc = Crashed\<rparr>"
proof -
  have "netListen exampleNoListener = Inl ''listen tcp :0: socket: too many open files''"
    by (simp add: exampleNoListener_def exampleWorld_def)
  then show ?thesis
    using crash_without_listener by simp
qed

end
